theory Spec2Isabelle
  imports Complex_Main "HOL-Library.Product_Lexorder"
begin

section \<open>V50 solver: a shallow embedding of \<open>v50_solver.py\<close>, \<open>main.py\<close> and \<open>lsdyna_runner.py\<close>\<close>

text \<open>
  Conventions of the embedding.
  \<^item> Python floats are idealised as \<^typ>\<open>real\<close>; the one non-real float the solver
    stores, \<open>float('inf')\<close> in \<open>v_high\<close>, is the constructor \<open>Infinity\<close> of \<open>xfloat\<close>.
    Rounding error of IEEE arithmetic is outside the model.
  \<^item> Python ints are \<^typ>\<open>int\<close>.
  \<^item> A Python dict with string keys is an association list in insertion order.
  \<^item> An exception is a value \<open>Inl e\<close> of a sum type.
  \<^item> A call that may run forever returns an \<open>option\<close>: \<open>None\<close> is "does not return".
\<close>

subsection \<open>Values, errors, dictionaries\<close>

datatype xfloat = Finite real | Infinity

datatype pyval =
    PStr string
  | PFloat xfloat
  | PInt int
  | PBool bool
  | PPoints "(real \<times> real) list"
  | PStrs "string list"

type_synonym pydict = "(string \<times> pyval) list"

datatype py_error = AttributeError string | ValueError string

definition quote :: string where
  "quote = [CHR 0x27]"

text \<open>\<open>str(e)\<close> of the exceptions the model knows.\<close>

fun str_of_error :: "py_error \<Rightarrow> string" where
  "str_of_error (AttributeError name) =
     ''module '' @ quote @ ''config'' @ quote @ '' has no attribute '' @ quote @ name @ quote"
| "str_of_error (ValueError msg) = msg"

text \<open>Truthiness of a dict, as \<open>not d\<close> tests it: a dict is false exactly when it is empty.\<close>

definition truthy_dict :: "pydict \<Rightarrow> bool" where
  "truthy_dict d = (d \<noteq> [])"

subsection \<open>The Lambert-Jonas function\<close>

text \<open>
  NumPy's \<open>x ** y\<close> on float64, over the reals. \<open>None\<close> is a result that is not a finite
  number: \<open>nan\<close> for a negative base with a non-integral exponent, \<open>inf\<close> for
  \<open>0 ** y\<close> with \<open>y < 0\<close>. NumPy raises in neither case (it warns).
\<close>

definition np_power :: "real \<Rightarrow> real \<Rightarrow> real option" where
  "np_power x y =
     (if y = 0 then Some 1
      else if 0 < x then Some (x powr y)
      else if x = 0 then (if 0 < y then Some 0 else None)
      else if of_int \<lfloor>y\<rfloor> = y
        then Some ((if even \<lfloor>y\<rfloor> then 1 else - 1) * ((- x) powr y))
      else None)"

text \<open>
  \<open>term = Vi**p - VBL**p; return np.where(term > 0, a * term**(1/p), 0)\<close>, for one element
  of the array \<open>Vi\<close> and NumPy scalars \<open>a\<close>, \<open>p\<close>, \<open>VBL\<close> (what \<open>curve_fit\<close> passes).
  A \<open>term\<close> that is \<open>nan\<close> or \<open>-inf\<close> fails \<open>term > 0\<close>, and \<open>term = inf\<close> arises only
  for \<open>p < 0\<close>, where \<open>inf ** (1/p) = 0\<close>: whenever \<open>term\<close> is not a finite number the
  selected value is \<open>0\<close>.
\<close>

definition lambert_jonas_func :: "real \<Rightarrow> real \<Rightarrow> real \<Rightarrow> real \<Rightarrow> real" where
  "lambert_jonas_func Vi a p VBL =
     (case (np_power Vi p, np_power VBL p) of
        (Some u, Some w) \<Rightarrow> (if u - w > 0 then a * (u - w) powr (1 / p) else 0)
      | _ \<Rightarrow> 0)"

subsection \<open>The \<open>config\<close> module\<close>

text \<open>
  The module namespace, restricted to the names \<open>v50_solver.py\<close> and \<open>main.py\<close> read.
  A field is \<open>None\<close> when the module does not define the name: reading it raises
  \<open>AttributeError\<close>. The solver reads each name where it uses it, so the model looks a
  field up at the same place and in the same order as the source does.
\<close>

record fit_bounds =
  a_bounds :: "real \<times> real"
  p_bounds :: "real \<times> real"
  VBL_bounds :: "real \<times> real"

type_synonym thickness = "real \<times> real \<times> real \<times> real"

record config =
  BASE_WORKDIR :: "string option"
  LS_DYNA_PATH :: "string option"
  TEMPLATE_FILE :: "string option"
  PROJECTILE_PART_ID :: "int option"
  THICKNESS_CONFIGS :: "thickness list option"
  INITIAL_VELOCITY :: "real option"
  GROWTH_FACTOR :: "real option"
  EXPONENTIAL_STEP :: "real option"
  MAX_TOTAL_RUNS :: "int option"
  VR_FILTER_THRESHOLD :: "real option"
  EXTRA_PENETRATION_SAMPLES :: "int option"
  MAX_BISECTION_ITERATIONS :: "int option"
  CONVERGENCE_TOLERANCE :: "real option"
  MIN_DATAPOINTS_FOR_FIT :: "int option"
  FIT_BOUNDS :: "fit_bounds option"
  INITIAL_GUESS :: "(real \<times> real \<times> real) option"

definition backslash :: string where
  "backslash = [CHR 0x5C]"

text \<open>
  \<open>config.py\<close> as shipped. It defines \<open>VELOCITY_STEP\<close>, \<open>BINARY_SEARCH_MAX_ITER\<close>,
  \<open>MIN_DATA_POINTS\<close> and \<open>LAMBERT_JONAS_BOUNDS\<close>, which the solver never reads, and none of
  \<open>TEMPLATE_FILE\<close>, \<open>GROWTH_FACTOR\<close>, \<open>EXPONENTIAL_STEP\<close>, \<open>MAX_TOTAL_RUNS\<close>,
  \<open>VR_FILTER_THRESHOLD\<close>, \<open>EXTRA_PENETRATION_SAMPLES\<close>, \<open>MAX_BISECTION_ITERATIONS\<close>,
  \<open>MIN_DATAPOINTS_FOR_FIT\<close>, \<open>FIT_BOUNDS\<close>, \<open>INITIAL_GUESS\<close>.
\<close>

definition shipped_config :: config where
  "shipped_config =
     \<lparr> BASE_WORKDIR = Some (''C:'' @ backslash @ ''songkai'' @ backslash @ ''V50'' @ [CHR 0xE6, CHR 0xB1, CHR 0x82, CHR 0xE8, CHR 0xA7, CHR 0xA3] @ ''_results''),
       LS_DYNA_PATH = Some (''C:'' @ backslash @ ''Application'' @ backslash @ ''lspp'' @ backslash
          @ ''dyna'' @ backslash @ ''program'' @ backslash @ ''ls-dyna_smp_d_R13_1_0_x64.exe''),
       TEMPLATE_FILE = None,
       PROJECTILE_PART_ID = Some 1,
       THICKNESS_CONFIGS = Some [(2, 2, 2, 2), (5 / 2, 5 / 2, 5 / 2, 5 / 2), (3, 3, 3, 3),
          (7 / 2, 7 / 2, 7 / 2, 7 / 2), (4, 4, 4, 4)],
       INITIAL_VELOCITY = Some 300,
       GROWTH_FACTOR = None,
       EXPONENTIAL_STEP = None,
       MAX_TOTAL_RUNS = None,
       VR_FILTER_THRESHOLD = None,
       EXTRA_PENETRATION_SAMPLES = None,
       MAX_BISECTION_ITERATIONS = None,
       CONVERGENCE_TOLERANCE = Some 5,
       MIN_DATAPOINTS_FOR_FIT = None,
       FIT_BOUNDS = None,
       INITIAL_GUESS = None \<rparr>"

subsection \<open>The observation source and the optimiser\<close>

text \<open>
  One experiment is the three calls \<open>prepare_k_file\<close>, \<open>run_simulation\<close>,
  \<open>get_residual_velocity\<close>. The solver uses their results as \<open>sim_success\<close> (a truth
  value) and, when that is true, as the pair \<open>(is_penetrated, vr)\<close>.
  \<open>ExperimentFailed\<close> is \<open>not sim_success\<close>; \<open>Observed is_penetrated vr\<close> is the pair.
  The world is a parameter: what experiment number \<open>run_count\<close> at a velocity yields.
  The model takes these results as given. It does not follow the three calls into
  \<open>lsdyna_runner.py\<close> and \<open>result_parser.py\<close>, whose shipped versions name the first
  function \<open>prepare_k_files\<close> and return dicts; \<open>run_simulation\<close> has a model of its own
  below.
\<close>

datatype outcome = ExperimentFailed | Observed bool real

type_synonym observe = "int \<Rightarrow> real \<Rightarrow> outcome"

text \<open>
  \<open>scipy.optimize.curve_fit\<close> is a parameter as well: it returns \<open>popt = (a, p, VBL)\<close>,
  raises \<open>RuntimeError\<close>, or raises another exception with a message.
\<close>

datatype fit_outcome = Converged real real real | FitRuntimeError | FitException string

type_synonym fitter =
  "real list \<Rightarrow> real list \<Rightarrow> real \<times> real \<times> real \<Rightarrow> real list \<times> real list \<Rightarrow> fit_outcome"

subsection \<open>The solver's local variables\<close>

text \<open>
  \<open>'h\<close> is the type of \<open>v_high\<close>: \<open>xfloat\<close> up to the test \<open>v_high == float('inf')\<close>,
  \<open>real\<close> after it.
\<close>

record 'h locals =
  v_low :: real
  v_high :: 'h
  penetration_points :: "(real \<times> real) list"
  run_count :: int
  current_v :: real
  expansion_iter :: int

record sampling_locals =
  samples_collected :: int
  up_v :: real
  down_v :: real
  tried :: "real set"
  direction_toggle :: int

subsection \<open>Helpers\<close>

text \<open>\<open>round(v, 6)\<close>: to six decimals, ties to the even neighbour.\<close>

definition py_round6 :: "real \<Rightarrow> real" where
  "py_round6 x =
     (let y = x * 1000000; f = \<lfloor>y\<rfloor>; d = y - of_int f
      in of_int (if d < 1 / 2 then f else if 1 / 2 < d then f + 1
                 else if even f then f else f + 1) / 1000000)"

text \<open>
  \<open>0 < vr <= config.VR_FILTER_THRESHOLD\<close>: a chained comparison, so the threshold is read
  only when \<open>0 < vr\<close> holds.
\<close>

definition vr_in_range :: "config \<Rightarrow> real \<Rightarrow> py_error + bool" where
  "vr_in_range cfg vr =
     (if 0 < vr
      then (case VR_FILTER_THRESHOLD cfg of
              None \<Rightarrow> Inl (AttributeError ''VR_FILTER_THRESHOLD'')
            | Some threshold \<Rightarrow> Inr (vr \<le> threshold))
      else Inr False)"

text \<open>
  \<open>[p for p in points if (p[1] > 0 and p[1] <= config.VR_FILTER_THRESHOLD)]\<close>: the
  threshold is read for the first point with \<open>p[1] > 0\<close>, if there is one.
\<close>

definition filter_points :: "config \<Rightarrow> (real \<times> real) list \<Rightarrow> py_error + (real \<times> real) list" where
  "filter_points cfg points =
     (if list_ex (\<lambda>p. 0 < snd p) points
      then (case VR_FILTER_THRESHOLD cfg of
              None \<Rightarrow> Inl (AttributeError ''VR_FILTER_THRESHOLD'')
            | Some threshold \<Rightarrow> Inr (filter (\<lambda>p. 0 < snd p \<and> snd p \<le> threshold) points))
      else Inr [])"

text \<open>The update of the sampling position: \<open>down_v -= sample_step\<close> or \<open>up_v += sample_step\<close>.\<close>

definition advance :: "bool \<Rightarrow> real \<Rightarrow> sampling_locals \<Rightarrow> sampling_locals" where
  "advance down sample_step sm =
     (if down then sm\<lparr>down_v := down_v sm - sample_step\<rparr>
      else sm\<lparr>up_v := up_v sm + sample_step\<rparr>)"

subsection \<open>Satellite sampling (the inner \<open>while\<close> loop, lines 113-167)\<close>

text \<open>
  One iteration of the loop body, on the solver's locals and the locals of the sampling
  loop. Every \<open>continue\<close> and the end of the body lead to the next test of the loop
  condition; the loop has no \<open>break\<close>.
\<close>

definition sampling_body ::
  "config \<Rightarrow> observe \<Rightarrow> real \<Rightarrow> xfloat locals \<times> sampling_locals
     \<Rightarrow> py_error + (xfloat locals \<times> sampling_locals)" where
  "sampling_body cfg obs sample_step s =
     (let st = fst s; sm = snd s;
          down = even (direction_toggle sm);
          sample_v = (if down then down_v sm else up_v sm);
          sm1 = sm\<lparr>direction_toggle := direction_toggle sm + 1\<rparr>
      in if down \<and> sample_v \<le> v_low st
         then Inr (st, sm1\<lparr>direction_toggle := direction_toggle sm1 + 1\<rparr>)
         else let key = py_round6 sample_v
           in if key \<in> tried sm1 then Inr (st, advance down sample_step sm1)
              else let sm2 = sm1\<lparr>tried := insert key (tried sm1)\<rparr>;
                       st1 = st\<lparr>run_count := run_count st + 1\<rparr>
                in case TEMPLATE_FILE cfg of
                     None \<Rightarrow> Inl (AttributeError ''TEMPLATE_FILE'')
                   | Some template \<Rightarrow>
                 (case LS_DYNA_PATH cfg of
                     None \<Rightarrow> Inl (AttributeError ''LS_DYNA_PATH'')
                   | Some path \<Rightarrow>
                 (case obs (run_count st1) sample_v of
                     ExperimentFailed \<Rightarrow> Inr (st1, advance down sample_step sm2)
                   | Observed is_pen vr \<Rightarrow>
                 (case PROJECTILE_PART_ID cfg of
                     None \<Rightarrow> Inl (AttributeError ''PROJECTILE_PART_ID'')
                   | Some part \<Rightarrow>
                 (case (if is_pen then vr_in_range cfg vr else Inr False) of
                     Inl e \<Rightarrow> Inl e
                   | Inr valid \<Rightarrow>
                       if valid
                       then Inr (st1\<lparr>penetration_points := penetration_points st1 @ [(sample_v, vr)]\<rparr>,
                                 advance down sample_step
                                   (sm2\<lparr>samples_collected := samples_collected sm2 + 1\<rparr>))
                       else Inr (st1, advance down sample_step sm2))))))"

text \<open>
  The loop condition \<open>samples_collected < target_samples and run_count < config.MAX_TOTAL_RUNS\<close>
  (the second conjunct, and so the read, is evaluated only when the first holds), and the
  loop. The loop may run forever: \<open>None\<close> is that case.
\<close>

definition sampling_cond ::
  "config \<Rightarrow> int \<Rightarrow> xfloat locals \<times> sampling_locals \<Rightarrow> py_error + bool" where
  "sampling_cond cfg target_samples s =
     (if samples_collected (snd s) < target_samples
      then (case MAX_TOTAL_RUNS cfg of
              None \<Rightarrow> Inl (AttributeError ''MAX_TOTAL_RUNS'')
            | Some max_runs \<Rightarrow> Inr (run_count (fst s) < max_runs))
      else Inr False)"

partial_function (option) sampling ::
  "config \<Rightarrow> observe \<Rightarrow> int \<Rightarrow> real \<Rightarrow> xfloat locals \<times> sampling_locals
     \<Rightarrow> (py_error + xfloat locals) option" where
  "sampling cfg obs target_samples sample_step s =
     (case sampling_cond cfg target_samples s of
        Inl e \<Rightarrow> Some (Inl e)
      | Inr go \<Rightarrow>
          if go
          then (case sampling_body cfg obs sample_step s of
                  Inl e \<Rightarrow> Some (Inl e)
                | Inr s' \<Rightarrow> sampling cfg obs target_samples sample_step s')
          else Some (Inr (fst s)))"

subsection \<open>Bracket expansion (the outer \<open>while\<close> loop, lines 72-178)\<close>

text \<open>
  What one iteration of the expansion body does next: \<open>continue\<close> or the end of the body
  (\<open>Again\<close>), the \<open>break\<close> of line 89 (\<open>Leave\<close>), or the sampling loop entered on a
  penetration with its \<open>target_samples\<close>, \<open>sample_step\<close> and initial variables
  (\<open>Sample\<close>), after which line 170 leaves the expansion loop.
\<close>

datatype expansion_control =
    Again "xfloat locals"
  | Leave "xfloat locals"
  | Sample int real "xfloat locals \<times> sampling_locals"

text \<open>
  Lines 73-109 and 171-178: one iteration of the body up to the entry of the sampling
  loop; \<open>multiplier\<close> is \<open>None\<close> or the growth factor.
\<close>

definition expansion_body ::
  "config \<Rightarrow> observe \<Rightarrow> real option \<Rightarrow> xfloat locals \<Rightarrow> py_error + expansion_control" where
  "expansion_body cfg obs multiplier st =
     (let st1 = st\<lparr>expansion_iter := expansion_iter st + 1, run_count := run_count st + 1\<rparr>
      in case TEMPLATE_FILE cfg of
           None \<Rightarrow> Inl (AttributeError ''TEMPLATE_FILE'')
         | Some template \<Rightarrow>
       (case LS_DYNA_PATH cfg of
           None \<Rightarrow> Inl (AttributeError ''LS_DYNA_PATH'')
         | Some path \<Rightarrow>
       (case obs (run_count st1) (current_v st1) of
           ExperimentFailed \<Rightarrow>
             if run_count st1 = 1
             then (case EXPONENTIAL_STEP cfg of
                     None \<Rightarrow> Inl (AttributeError ''EXPONENTIAL_STEP'')
                   | Some step \<Rightarrow> Inr (Again (st1\<lparr>current_v := current_v st1 + step\<rparr>)))
             else Inr (Leave st1)
         | Observed is_penetrated vr \<Rightarrow>
       (case PROJECTILE_PART_ID cfg of
           None \<Rightarrow> Inl (AttributeError ''PROJECTILE_PART_ID'')
         | Some part \<Rightarrow>
           if is_penetrated
           then
             (let st2 = st1\<lparr>v_high := Finite (current_v st1)\<rparr>
              in case vr_in_range cfg vr of
                   Inl e \<Rightarrow> Inl e
                 | Inr valid \<Rightarrow>
               (let st3 = (if valid
                           then st2\<lparr>penetration_points :=
                                      penetration_points st2 @ [(current_v st2, vr)]\<rparr>
                           else st2);
                    target_samples = (case EXTRA_PENETRATION_SAMPLES cfg of
                                        None \<Rightarrow> 3 | Some n \<Rightarrow> n)
                in case filter_points cfg (penetration_points st3) of
                     Inl e \<Rightarrow> Inl e
                   | Inr kept \<Rightarrow>
                 (case EXPONENTIAL_STEP cfg of
                     None \<Rightarrow> Inl (AttributeError ''EXPONENTIAL_STEP'')
                   | Some step \<Rightarrow>
                     (let sample_step = max 1 (step / 5);
                          sm = \<lparr> samples_collected = int (length kept),
                                 up_v = current_v st1 + sample_step,
                                 down_v = current_v st1 - sample_step,
                                 tried = {py_round6 (current_v st1)},
                                 direction_toggle = 0 \<rparr>
                      in Inr (Sample target_samples sample_step (st3, sm))))))
           else
             (let st2 = st1\<lparr>v_low := current_v st1\<rparr>
              in case (case multiplier of
                         None \<Rightarrow> None
                       | Some m \<Rightarrow> if m \<noteq> 0 \<and> 0 < expansion_iter st2 then Some m else None) of
                   Some m \<Rightarrow> Inr (Again (st2\<lparr>current_v := current_v st2 * m\<rparr>))
                 | None \<Rightarrow>
                     (case EXPONENTIAL_STEP cfg of
                        None \<Rightarrow> Inl (AttributeError ''EXPONENTIAL_STEP'')
                      | Some step \<Rightarrow> Inr (Again (st2\<lparr>current_v := current_v st2 + step\<rparr>))))))))"

lemma expansion_body_Again:
  assumes "expansion_body cfg obs multiplier st = Inr (Again st')"
  shows "run_count st' = run_count st + 1"
  using assms
  by (auto simp: expansion_body_def Let_def
           split: option.splits outcome.splits if_splits sum.splits)

text \<open>
  The loop \<open>while run_count < config.MAX_TOTAL_RUNS\<close>. It returns the locals at line 180;
  \<open>None\<close> is a sampling loop that does not return.
\<close>

function expansion ::
  "config \<Rightarrow> observe \<Rightarrow> real option \<Rightarrow> xfloat locals \<Rightarrow> (py_error + xfloat locals) option" where
  "expansion cfg obs multiplier st =
     (case MAX_TOTAL_RUNS cfg of
        None \<Rightarrow> Some (Inl (AttributeError ''MAX_TOTAL_RUNS''))
      | Some max_runs \<Rightarrow>
          if run_count st < max_runs
          then (case expansion_body cfg obs multiplier st of
                  Inl e \<Rightarrow> Some (Inl e)
                | Inr (Leave st') \<Rightarrow> Some (Inr st')
                | Inr (Sample target_samples sample_step s) \<Rightarrow>
                    sampling cfg obs target_samples sample_step s
                | Inr (Again st') \<Rightarrow> expansion cfg obs multiplier st')
          else Some (Inr st))"
  by pat_completeness auto
termination
  by (relation "measure (\<lambda>(cfg, obs, multiplier, st).
                  nat ((case MAX_TOTAL_RUNS cfg of None \<Rightarrow> 0 | Some m \<Rightarrow> m) - run_count st))")
     (auto dest: expansion_body_Again)

subsection \<open>Bisection (the \<open>while\<close> loop, lines 187-220)\<close>

text \<open>
  What one iteration of the bisection body does next: \<open>Break\<close> is the \<open>break\<close> of the
  convergence test (line 190), \<open>Continue\<close> the \<open>continue\<close> of line 209 and the end of
  the body.
\<close>

datatype control = Continue "real locals" | Break "real locals"

text \<open>
  One iteration of the loop body, lines 188-220, without the increment of
  \<open>bisection_iter\<close> (line 192), which the loop below makes.
\<close>

definition bisection_body ::
  "config \<Rightarrow> observe \<Rightarrow> real locals \<Rightarrow> py_error + control" where
  "bisection_body cfg obs st =
     (case CONVERGENCE_TOLERANCE cfg of
        None \<Rightarrow> Inl (AttributeError ''CONVERGENCE_TOLERANCE'')
      | Some tolerance \<Rightarrow>
          if v_high st - v_low st < tolerance then Inr (Break st)
          else
            (let st1 = st\<lparr>run_count := run_count st + 1\<rparr>;
                 mid_v = (v_low st1 + v_high st1) / 2
             in case TEMPLATE_FILE cfg of
                  None \<Rightarrow> Inl (AttributeError ''TEMPLATE_FILE'')
                | Some template \<Rightarrow>
              (case LS_DYNA_PATH cfg of
                  None \<Rightarrow> Inl (AttributeError ''LS_DYNA_PATH'')
                | Some path \<Rightarrow>
              (case obs (run_count st1) mid_v of
                  ExperimentFailed \<Rightarrow>
                    if mid_v > (v_low st1 + v_high st1) / 2
                    then Inr (Continue (st1\<lparr>v_high := mid_v\<rparr>))
                    else Inr (Continue (st1\<lparr>v_low := mid_v\<rparr>))
                | Observed is_penetrated vr \<Rightarrow>
              (case PROJECTILE_PART_ID cfg of
                  None \<Rightarrow> Inl (AttributeError ''PROJECTILE_PART_ID'')
                | Some part \<Rightarrow>
                  if is_penetrated
                  then (let st2 = st1\<lparr>v_high := mid_v\<rparr>
                        in case vr_in_range cfg vr of
                             Inl e \<Rightarrow> Inl e
                           | Inr valid \<Rightarrow>
                               if valid
                               then Inr (Continue (st2\<lparr>penetration_points :=
                                           penetration_points st2 @ [(mid_v, vr)]\<rparr>))
                               else Inr (Continue st2))
                  else Inr (Continue (st1\<lparr>v_low := mid_v\<rparr>)))))))"

text \<open>
  The loop: \<open>while bisection_iter < config.MAX_BISECTION_ITERATIONS and run_count <
  config.MAX_TOTAL_RUNS\<close>. It returns the final \<open>bisection_iter\<close>, the number of trials,
  with the locals.
\<close>

function bisection ::
  "config \<Rightarrow> observe \<Rightarrow> int \<Rightarrow> real locals \<Rightarrow> py_error + (int \<times> real locals)" where
  "bisection cfg obs bisection_iter st =
     (case MAX_BISECTION_ITERATIONS cfg of
        None \<Rightarrow> Inl (AttributeError ''MAX_BISECTION_ITERATIONS'')
      | Some max_iter \<Rightarrow>
          if bisection_iter < max_iter
          then (case MAX_TOTAL_RUNS cfg of
                  None \<Rightarrow> Inl (AttributeError ''MAX_TOTAL_RUNS'')
                | Some max_runs \<Rightarrow>
                    if run_count st < max_runs
                    then (case bisection_body cfg obs st of
                            Inl e \<Rightarrow> Inl e
                          | Inr (Break st') \<Rightarrow> Inr (bisection_iter, st')
                          | Inr (Continue st') \<Rightarrow> bisection cfg obs (bisection_iter + 1) st')
                    else Inr (bisection_iter, st))
          else Inr (bisection_iter, st))"
  by pat_completeness auto
termination
  by (relation "measure (\<lambda>(cfg, obs, bisection_iter, st).
                  nat ((case MAX_BISECTION_ITERATIONS cfg of None \<Rightarrow> 0 | Some m \<Rightarrow> m)
                       - bisection_iter))")
     auto

subsection \<open>Fitting (lines 227-308)\<close>

text \<open>\<open>sorted(list(set(points)))\<close>: tuples compare lexicographically.\<close>

definition dedup_sort :: "(real \<times> real) list \<Rightarrow> (real \<times> real) list" where
  "dedup_sort points = sort (remdups points)"

text \<open>\<open>min(config.FIT_BOUNDS['VBL'][1], Vi_data.min() * 0.99)\<close>, for a non-empty array.\<close>

definition vbl_upper_bound :: "fit_bounds \<Rightarrow> real list \<Rightarrow> real" where
  "vbl_upper_bound fb Vi_data = min (snd (VBL_bounds fb)) (Min (set Vi_data) * (99 / 100))"

text \<open>\<open>np.sqrt(np.mean((Vr_data - Vr_fit)**2))\<close>.\<close>

definition rmse_of :: "real list \<Rightarrow> real list \<Rightarrow> real" where
  "rmse_of Vr_data Vr_fit =
     sqrt (sum_list (map (\<lambda>(vr, f). (vr - f)\<^sup>2) (zip Vr_data Vr_fit)) / real (length Vr_data))"

text \<open>
  The dict of the three \<open>failed\<close> returns of lines 236, 291 and 301, which differ in
  the reason only.
\<close>

definition failed_record :: "string \<Rightarrow> real locals \<Rightarrow> (real \<times> real) list \<Rightarrow> pydict" where
  "failed_record reason st points =
     [(''status'', PStr ''failed''),
      (''reason'', PStr reason),
      (''v_low'', PFloat (Finite (v_low st))),
      (''v_high'', PFloat (Finite (v_high st))),
      (''runs'', PInt (run_count st)),
      (''points_used'', PPoints points)]"

text \<open>
  Lines 227-308. The read of \<open>config.INITIAL_GUESS\<close> is inside the \<open>try\<close>, so its
  \<open>AttributeError\<close> is caught by \<open>except Exception\<close> and becomes a \<open>failed\<close> record;
  \<open>Vi_data.min()\<close> of an empty array raises \<open>ValueError\<close> outside the \<open>try\<close>.
\<close>

definition fit_stage :: "config \<Rightarrow> fitter \<Rightarrow> real locals \<Rightarrow> py_error + pydict" where
  "fit_stage cfg fit st =
     (let points = dedup_sort (penetration_points st)
      in case filter_points cfg points of
           Inl e \<Rightarrow> Inl e
         | Inr filtered_points \<Rightarrow>
       (case MIN_DATAPOINTS_FOR_FIT cfg of
           None \<Rightarrow> Inl (AttributeError ''MIN_DATAPOINTS_FOR_FIT'')
         | Some min_points \<Rightarrow>
           if int (length filtered_points) < min_points
           then Inr (failed_record ''Not enough data points for fitting'' st points)
           else
             (let Vi_data = map fst filtered_points;
                  Vr_data = map snd filtered_points
              in case FIT_BOUNDS cfg of
                   None \<Rightarrow> Inl (AttributeError ''FIT_BOUNDS'')
                 | Some fb \<Rightarrow>
                   if Vi_data = []
                   then Inl (ValueError ''zero-size array to reduction operation minimum which has no identity'')
                   else
                     (let bounds =
                            ([fst (a_bounds fb), fst (p_bounds fb), fst (VBL_bounds fb)],
                             [snd (a_bounds fb), snd (p_bounds fb), vbl_upper_bound fb Vi_data])
                      in case INITIAL_GUESS cfg of
                           None \<Rightarrow>
                             Inr (failed_record (str_of_error (AttributeError ''INITIAL_GUESS''))
                                    st points)
                         | Some p0 \<Rightarrow>
                         (case fit Vi_data Vr_data p0 bounds of
                            Converged a p VBL \<Rightarrow>
                              (let Vr_fit = map (\<lambda>Vi. lambert_jonas_func Vi a p VBL) Vi_data
                               in Inr [(''status'', PStr ''success''),
                                       (''V50'', PFloat (Finite VBL)),
                                       (''param_a'', PFloat (Finite a)),
                                       (''param_p'', PFloat (Finite p)),
                                       (''rmse'', PFloat (Finite (rmse_of Vr_data Vr_fit))),
                                       (''v_low'', PFloat (Finite (v_low st))),
                                       (''v_high'', PFloat (Finite (v_high st))),
                                       (''runs'', PInt (run_count st)),
                                       (''points_used'', PPoints points)])
                          | FitRuntimeError \<Rightarrow>
                              Inr (failed_record ''Curve fitting failed'' st points)
                          | FitException msg \<Rightarrow> Inr (failed_record msg st points))))))"

subsection \<open>\<open>find_v50_for_config\<close>\<close>

text \<open>
  Lines 60-69: the initial locals, and \<open>multiplier = config.GROWTH_FACTOR if
  getattr(config, 'GROWTH_FACTOR', 1.0) > 1.0 else None\<close>.
\<close>

definition initial_locals :: "real \<Rightarrow> xfloat locals" where
  "initial_locals initial_velocity =
     \<lparr> v_low = 0, v_high = Infinity, penetration_points = [], run_count = 0,
       current_v = initial_velocity, expansion_iter = 0 \<rparr>"

definition growth_multiplier :: "config \<Rightarrow> real option" where
  "growth_multiplier cfg =
     (if (case GROWTH_FACTOR cfg of None \<Rightarrow> 1 | Some g \<Rightarrow> g) > 1 then GROWTH_FACTOR cfg else None)"

text \<open>The locals after the test of line 180 has found \<open>v_high\<close> to be the finite \<open>vh\<close>.\<close>

definition with_v_high :: "xfloat locals \<Rightarrow> real \<Rightarrow> real locals" where
  "with_v_high st vh =
     \<lparr> v_low = v_low st, v_high = vh, penetration_points = penetration_points st,
       run_count = run_count st, current_v = current_v st,
       expansion_iter = expansion_iter st \<rparr>"

text \<open>
  Creating the work directory and the log handler are effects the model leaves out; the
  read of \<open>config.BASE_WORKDIR\<close> that comes with them is kept. The world is asked with
  the thickness configuration of the call.
\<close>

definition find_v50_for_config ::
  "config \<Rightarrow> (thickness \<Rightarrow> observe) \<Rightarrow> fitter \<Rightarrow> thickness \<Rightarrow> int
     \<Rightarrow> (py_error + pydict) option" where
  "find_v50_for_config cfg world fit thickness_config config_index =
     (case BASE_WORKDIR cfg of
        None \<Rightarrow> Some (Inl (AttributeError ''BASE_WORKDIR''))
      | Some base \<Rightarrow>
     (case INITIAL_VELOCITY cfg of
        None \<Rightarrow> Some (Inl (AttributeError ''INITIAL_VELOCITY''))
      | Some initial_velocity \<Rightarrow>
        (case expansion cfg (world thickness_config) (growth_multiplier cfg)
                (initial_locals initial_velocity) of
              None \<Rightarrow> None
            | Some (Inl e) \<Rightarrow> Some (Inl e)
            | Some (Inr st) \<Rightarrow>
              (case v_high st of
                 Infinity \<Rightarrow>
                   Some (Inr [(''status'', PStr ''failed''),
                              (''reason'', PStr ''No penetration found in exponential search''),
                              (''runs'', PInt (run_count st))])
               | Finite vh \<Rightarrow>
                   (case bisection cfg (world thickness_config) 0 (with_v_high st vh) of
                      Inl e \<Rightarrow> Some (Inl e)
                    | Inr (bisection_iter, st') \<Rightarrow> Some (fit_stage cfg fit st'))))))"

subsection \<open>\<open>main\<close>\<close>

text \<open>\<open>needle in haystack\<close> on strings.\<close>

fun contains :: "string \<Rightarrow> string \<Rightarrow> bool" where
  "contains [] needle = (needle = [])"
| "contains (c # cs) needle = (take (length needle) (c # cs) = needle \<or> contains cs needle)"

definition row_prefix :: "int \<Rightarrow> thickness \<Rightarrow> pydict" where
  "row_prefix i thickness =
     (case thickness of (t1, t2, t3, t4) \<Rightarrow>
        [(''config_index'', PInt i),
         (''t1'', PFloat (Finite t1)), (''t2'', PFloat (Finite t2)),
         (''t3'', PFloat (Finite t3)), (''t4'', PFloat (Finite t4))])"

text \<open>
  The loop over \<open>enumerate(config.THICKNESS_CONFIGS)\<close>; \<open>i\<close> is the 0-based index. The
  \<open>try\<close> around the solver call turns every exception into a \<open>critical_failure\<close> row.
  Rows are appended to \<open>results_list\<close>; writing the CSV file is left out.
\<close>

fun process_configs ::
  "config \<Rightarrow> (thickness \<Rightarrow> observe) \<Rightarrow> fitter \<Rightarrow> int \<Rightarrow> thickness list \<Rightarrow> pydict list
     \<Rightarrow> pydict list option" where
  "process_configs cfg world fit i [] results_list = Some results_list"
| "process_configs cfg world fit i (thickness # rest) results_list =
     (case find_v50_for_config cfg world fit thickness (i + 1) of
        None \<Rightarrow> None
      | Some (Inr result) \<Rightarrow>
          process_configs cfg world fit (i + 1) rest
            (results_list @ [row_prefix (i + 1) thickness @ result])
      | Some (Inl e) \<Rightarrow>
          process_configs cfg world fit (i + 1) rest
            (results_list @ [row_prefix (i + 1) thickness @
               [(''status'', PStr ''critical_failure''), (''reason'', PStr (str_of_error e))]]))"

text \<open>
  \<open>main\<close>: \<open>setup_global_logging\<close> reads \<open>config.BASE_WORKDIR\<close>, the guard of line 41
  returns before any configuration is processed, and the loop runs over
  \<open>config.THICKNESS_CONFIGS\<close>. The value of the model is the final \<open>results_list\<close>.
\<close>

definition main :: "config \<Rightarrow> (thickness \<Rightarrow> observe) \<Rightarrow> fitter \<Rightarrow> (py_error + pydict list) option" where
  "main cfg world fit =
     (case BASE_WORKDIR cfg of
        None \<Rightarrow> Some (Inl (AttributeError ''BASE_WORKDIR''))
      | Some base \<Rightarrow>
     (case LS_DYNA_PATH cfg of
        None \<Rightarrow> Some (Inl (AttributeError ''LS_DYNA_PATH''))
      | Some path \<Rightarrow>
          if contains path ''path/to/your'' then Some (Inr [])
          else (case THICKNESS_CONFIGS cfg of
                  None \<Rightarrow> Some (Inl (AttributeError ''THICKNESS_CONFIGS''))
                | Some configs \<Rightarrow>
                    map_option Inr (process_configs cfg world fit 0 configs []))))"

subsection \<open>The search as a transition system\<close>

text \<open>
  The control points of \<open>find_v50_for_config\<close> between two loop iterations: at the head
  of the expansion loop, of the sampling loop (with its \<open>target_samples\<close> and
  \<open>sample_step\<close>) and of the bisection loop (with \<open>bisection_iter\<close>), at the return of
  line 182, and at the fitting stage. One transition is one iteration of a loop body, or
  the exit of a loop; it uses the same loop conditions and bodies as the loops above.
\<close>

datatype point =
    Expanding "xfloat locals"
  | Sampling int real "xfloat locals \<times> sampling_locals"
  | Bisecting int "real locals"
  | NoPenetration "xfloat locals"
  | Fitting "real locals"

text \<open>Line 180: \<open>if v_high == float('inf'): return ...\<close>, else on to the bisection.\<close>

definition after_expansion :: "xfloat locals \<Rightarrow> point" where
  "after_expansion st =
     (case v_high st of Infinity \<Rightarrow> NoPenetration st | Finite vh \<Rightarrow> Bisecting 0 (with_v_high st vh))"

inductive step :: "config \<Rightarrow> observe \<Rightarrow> point \<Rightarrow> point \<Rightarrow> bool" for cfg obs where
  expand_again:
    "MAX_TOTAL_RUNS cfg = Some max_runs \<Longrightarrow> run_count st < max_runs \<Longrightarrow>
     expansion_body cfg obs (growth_multiplier cfg) st = Inr (Again st') \<Longrightarrow>
     step cfg obs (Expanding st) (Expanding st')"
| expand_leave:
    "MAX_TOTAL_RUNS cfg = Some max_runs \<Longrightarrow> run_count st < max_runs \<Longrightarrow>
     expansion_body cfg obs (growth_multiplier cfg) st = Inr (Leave st') \<Longrightarrow>
     step cfg obs (Expanding st) (after_expansion st')"
| expand_sample:
    "MAX_TOTAL_RUNS cfg = Some max_runs \<Longrightarrow> run_count st < max_runs \<Longrightarrow>
     expansion_body cfg obs (growth_multiplier cfg) st = Inr (Sample target_samples sample_step s) \<Longrightarrow>
     step cfg obs (Expanding st) (Sampling target_samples sample_step s)"
| expand_exhausted:
    "MAX_TOTAL_RUNS cfg = Some max_runs \<Longrightarrow> \<not> run_count st < max_runs \<Longrightarrow>
     step cfg obs (Expanding st) (after_expansion st)"
| sample_again:
    "sampling_cond cfg target_samples s = Inr True \<Longrightarrow>
     sampling_body cfg obs sample_step s = Inr s' \<Longrightarrow>
     step cfg obs (Sampling target_samples sample_step s) (Sampling target_samples sample_step s')"
| sample_done:
    "sampling_cond cfg target_samples s = Inr False \<Longrightarrow>
     step cfg obs (Sampling target_samples sample_step s) (after_expansion (fst s))"
| bisect_again:
    "MAX_BISECTION_ITERATIONS cfg = Some max_iter \<Longrightarrow> bisection_iter < max_iter \<Longrightarrow>
     MAX_TOTAL_RUNS cfg = Some max_runs \<Longrightarrow> run_count st < max_runs \<Longrightarrow>
     bisection_body cfg obs st = Inr (Continue st') \<Longrightarrow>
     step cfg obs (Bisecting bisection_iter st) (Bisecting (bisection_iter + 1) st')"
| bisect_converged:
    "MAX_BISECTION_ITERATIONS cfg = Some max_iter \<Longrightarrow> bisection_iter < max_iter \<Longrightarrow>
     MAX_TOTAL_RUNS cfg = Some max_runs \<Longrightarrow> run_count st < max_runs \<Longrightarrow>
     bisection_body cfg obs st = Inr (Break st') \<Longrightarrow>
     step cfg obs (Bisecting bisection_iter st) (Fitting st')"
| bisect_max_iter:
    "MAX_BISECTION_ITERATIONS cfg = Some max_iter \<Longrightarrow> \<not> bisection_iter < max_iter \<Longrightarrow>
     step cfg obs (Bisecting bisection_iter st) (Fitting st)"
| bisect_exhausted:
    "MAX_BISECTION_ITERATIONS cfg = Some max_iter \<Longrightarrow> bisection_iter < max_iter \<Longrightarrow>
     MAX_TOTAL_RUNS cfg = Some max_runs \<Longrightarrow> \<not> run_count st < max_runs \<Longrightarrow>
     step cfg obs (Bisecting bisection_iter st) (Fitting st)"

text \<open>The points a run of \<open>find_v50_for_config\<close> passes through, from line 70 on.\<close>

definition reachable :: "config \<Rightarrow> observe \<Rightarrow> point \<Rightarrow> bool" where
  "reachable cfg obs pt =
     (\<exists>initial_velocity. INITIAL_VELOCITY cfg = Some initial_velocity
        \<and> (step cfg obs)\<^sup>*\<^sup>* (Expanding (initial_locals initial_velocity)) pt)"

text \<open>The bracket \<open>(v_low, v_high)\<close> at a point.\<close>

fun bracket :: "point \<Rightarrow> real \<times> xfloat" where
  "bracket (Expanding st) = (v_low st, v_high st)"
| "bracket (Sampling target_samples sample_step s) = (v_low (fst s), v_high (fst s))"
| "bracket (Bisecting bisection_iter st) = (v_low st, Finite (v_high st))"
| "bracket (NoPenetration st) = (v_low st, v_high st)"
| "bracket (Fitting st) = (v_low st, Finite (v_high st))"

text \<open>\<open>v_low < v_high\<close>, and \<open>v_high' \<le> v_high\<close>, with \<open>float('inf')\<close> above every real.\<close>

fun below :: "real \<Rightarrow> xfloat \<Rightarrow> bool" where
  "below x Infinity = True"
| "below x (Finite h) = (x < h)"

fun xfloat_le :: "xfloat \<Rightarrow> xfloat \<Rightarrow> bool" where
  "xfloat_le h Infinity = True"
| "xfloat_le Infinity (Finite h) = False"
| "xfloat_le (Finite h') (Finite h) = (h' \<le> h)"

subsection \<open>\<open>run_simulation\<close> and \<open>check_output_files\<close> (\<open>lsdyna_runner.py\<close>)\<close>

text \<open>
  What the operating system does during one call: whether the executable exists,
  whether a statement of the \<open>try\<close> block raises an exception that reaches the handler of
  line 234 (with \<open>str(e)\<close>), whether \<open>communicate\<close> times out, the exit code, the error
  output, the elapsed time, which output files exist with a positive size, and whether
  \<open>messag\<close> holds the words \<open>NORMAL TERMINATION\<close>.
\<close>

record run_env =
  executable_exists :: bool
  raised :: "string option"
  timed_out :: bool
  return_code :: int
  stderr :: string
  elapsed_time :: real
  present :: "string \<Rightarrow> bool"
  messag_normal_termination :: bool

record output_status =
  complete :: bool
  files :: "string list"
  missing :: "string list"
  normal_termination :: bool

definition check_output_files :: "run_env \<Rightarrow> output_status" where
  "check_output_files env =
     (let required_files = [''messag''];
          important_files = [''rbdout'', ''d3hsp''];
          optional_files = [''matsum''];
          found_files = filter (present env) (required_files @ important_files @ optional_files);
          missing_required = filter (\<lambda>f. \<not> present env f) required_files;
          missing_important = filter (\<lambda>f. \<not> present env f) important_files
      in \<lparr> complete = (missing_required = [] \<and> missing_important = []
                         \<and> messag_normal_termination env),
           files = found_files,
           missing = missing_required @ missing_important,
           normal_termination = messag_normal_termination env \<rparr>)"

text \<open>\<open>str\<close> of an int, as the f-string \<open>f'exit_code_{return_code}'\<close> formats it.\<close>

definition digit_char :: "nat \<Rightarrow> char" where
  "digit_char d = ''0123456789'' ! d"

fun str_nat :: "nat \<Rightarrow> string" where
  "str_nat n = (if 10 \<le> n then str_nat (n div 10) @ [digit_char (n mod 10)] else [digit_char n])"

definition py_str_int :: "int \<Rightarrow> string" where
  "py_str_int i = (if 0 \<le> i then str_nat (nat i) else CHR ''-'' # str_nat (nat \<bar>i\<bar>))"

definition run_simulation :: "run_env \<Rightarrow> pydict" where
  "run_simulation env =
     (if \<not> executable_exists env
      then [(''success'', PBool False), (''reason'', PStr ''lsdyna_not_found''),
            (''duration'', PInt 0)]
      else case raised env of
             Some msg \<Rightarrow>
               [(''success'', PBool False), (''reason'', PStr (''exception: '' @ msg)),
                (''duration'', PInt 0)]
           | None \<Rightarrow>
               if timed_out env
               then [(''success'', PBool False), (''reason'', PStr ''timeout''),
                     (''duration'', PFloat (Finite (elapsed_time env)))]
               else if return_code env = 0
               then (let output_status = check_output_files env
                     in if complete output_status
                        then [(''success'', PBool True),
                              (''duration'', PFloat (Finite (elapsed_time env))),
                              (''return_code'', PInt (return_code env)),
                              (''output_files'', PStrs (files output_status))]
                        else [(''success'', PBool False), (''reason'', PStr ''incomplete_output''),
                              (''duration'', PFloat (Finite (elapsed_time env))),
                              (''missing_files'', PStrs (missing output_status))])
               else [(''success'', PBool False),
                     (''reason'', PStr (''exit_code_'' @ py_str_int (return_code env))),
                     (''duration'', PFloat (Finite (elapsed_time env))),
                     (''stderr'', PStr (stderr env))])"

text \<open>
  Lines 79-92 of the solver with the shipped runner: \<open>sim_success\<close> is the dict that
  \<open>run_simulation\<close> returns, \<open>not sim_success\<close> is its falsity, and only a true
  \<open>sim_success\<close> lets the solver read \<open>(is_penetrated, vr)\<close> from the parser.
\<close>

definition observe_with_runner ::
  "(int \<Rightarrow> real \<Rightarrow> run_env) \<Rightarrow> (int \<Rightarrow> real \<Rightarrow> bool \<times> real) \<Rightarrow> observe" where
  "observe_with_runner env parse n v =
     (let sim_success = run_simulation (env n v)
      in if \<not> truthy_dict sim_success then ExperimentFailed
         else (case parse n v of (is_penetrated, vr) \<Rightarrow> Observed is_penetrated vr))"

subsection \<open>Inputs used by the examples\<close>

text \<open>
  A configuration that defines every name the solver reads, with the growth factor
  \<open>1.5\<close> and the initial velocity \<open>300\<close> of the specification's scenario A, and three
  worlds: one where no velocity penetrates, one where every velocity does with a
  residual velocity of \<open>50\<close>, and one where the target is penetrated from \<open>350\<close> on and
  the residual velocity rises steeply above it (\<open>59\<close> at \<open>350\<close>, \<open>120\<close> beyond).
\<close>

definition demo_config :: config where
  "demo_config =
     \<lparr> BASE_WORKDIR = Some ''results'',
       LS_DYNA_PATH = Some ''ls-dyna'',
       TEMPLATE_FILE = Some ''main.k'',
       PROJECTILE_PART_ID = Some 1,
       THICKNESS_CONFIGS = Some [(2, 2, 2, 2)],
       INITIAL_VELOCITY = Some 300,
       GROWTH_FACTOR = Some (3 / 2),
       EXPONENTIAL_STEP = Some 50,
       MAX_TOTAL_RUNS = Some 20,
       VR_FILTER_THRESHOLD = Some 300,
       EXTRA_PENETRATION_SAMPLES = None,
       MAX_BISECTION_ITERATIONS = Some 20,
       CONVERGENCE_TOLERANCE = Some 5,
       MIN_DATAPOINTS_FOR_FIT = Some 5,
       FIT_BOUNDS = Some \<lparr>a_bounds = (1 / 10, 2), p_bounds = (11 / 10, 5), VBL_bounds = (50, 800)\<rparr>,
       INITIAL_GUESS = Some (1, 2, 300) \<rparr>"

definition never_penetrated :: "thickness \<Rightarrow> observe" where
  "never_penetrated thickness_config n v = Observed False 0"

definition always_penetrated :: "thickness \<Rightarrow> observe" where
  "always_penetrated thickness_config n v = Observed True 50"

definition steep_world :: "thickness \<Rightarrow> observe" where
  "steep_world thickness_config n v =
     (if v < 350 then Observed False 0
      else if v = 350 then Observed True 59
      else Observed True 120)"

text \<open>An optimiser that never converges.\<close>

definition diverging_fit :: fitter where
  "diverging_fit Vi_data Vr_data p0 bounds = FitRuntimeError"

text \<open>
  A state of the sampling loop in which the loop condition holds, the downward
  direction is next and the downward candidate is at or below \<open>v_low\<close>.
\<close>

definition stuck :: "config \<Rightarrow> int \<Rightarrow> xfloat locals \<times> sampling_locals \<Rightarrow> bool" where
  "stuck cfg target_samples s =
     (sampling_cond cfg target_samples s = Inr True
      \<and> even (direction_toggle (snd s)) \<and> down_v (snd s) \<le> v_low (fst s))"

text \<open>
  The names every experiment reads (lines 78, 79, 92 and the filter of line 97) are
  defined.
\<close>

definition experiment_names_defined :: "config \<Rightarrow> bool" where
  "experiment_names_defined cfg =
     (TEMPLATE_FILE cfg \<noteq> None \<and> LS_DYNA_PATH cfg \<noteq> None \<and> PROJECTILE_PART_ID cfg \<noteq> None
      \<and> VR_FILTER_THRESHOLD cfg \<noteq> None)"

subsection \<open>The bracket invariant\<close>

text \<open>
  A configuration is sane when its initial velocity and its linear step, where defined,
  are positive. The invariant of the search says, at each control point, what is known of
  the bracket: before the first penetration \<open>v_high\<close> is infinite and the next velocity
  is positive and above \<open>v_low\<close>; after it, \<open>v_low < v_high\<close>.
\<close>

definition sane_config :: "config \<Rightarrow> bool" where
  "sane_config cfg =
     ((case INITIAL_VELOCITY cfg of None \<Rightarrow> True | Some v \<Rightarrow> 0 < v)
      \<and> (case EXPONENTIAL_STEP cfg of None \<Rightarrow> True | Some linear_step \<Rightarrow> 0 < linear_step))"

fun search_inv :: "point \<Rightarrow> bool" where
  "search_inv (Expanding st) = (v_high st = Infinity \<and> v_low st < current_v st \<and> 0 < current_v st)"
| "search_inv (Sampling target_samples sample_step s) =
     (\<exists>vh. v_high (fst s) = Finite vh \<and> v_low (fst s) < vh)"
| "search_inv (Bisecting bisection_iter st) = (v_low st < v_high st)"
| "search_inv (NoPenetration st) = (v_high st = Infinity)"
| "search_inv (Fitting st) = (v_low st < v_high st)"

section \<open>Theorems\<close>

subsection \<open>The Lambert-Jonas function\<close>

lemma np_power_nonneg:
  assumes "0 < p" "0 \<le> x"
  shows "np_power x p = Some (x powr p)"
  using assms by (auto simp: np_power_def)

lemma lambert_jonas_nonneg:
  assumes "0 < p" "0 \<le> Vi" "0 \<le> VBL"
  shows "lambert_jonas_func Vi a p VBL =
           (if Vi powr p - VBL powr p > 0 then a * (Vi powr p - VBL powr p) powr (1 / p) else 0)"
  using assms by (simp add: lambert_jonas_func_def np_power_nonneg)

lemma lambert_jonas_below:
  assumes "0 < p" "0 \<le> Vi" "Vi \<le> VBL"
  shows "lambert_jonas_func Vi a p VBL = 0"
proof -
  have "Vi powr p \<le> VBL powr p"
    using assms by (intro powr_mono2) auto
  then show ?thesis
    using assms by (simp add: lambert_jonas_nonneg)
qed

lemma lambert_jonas_strict_mono:
  assumes "0 < a" "0 < p" "0 < VBL" "VBL < x" "x < y"
  shows "lambert_jonas_func x a p VBL < lambert_jonas_func y a p VBL"
proof -
  have xy: "x powr p < y powr p"
    using assms by (intro powr_less_mono2) auto
  have bx: "VBL powr p < x powr p"
    using assms by (intro powr_less_mono2) auto
  have "(x powr p - VBL powr p) powr (1 / p) < (y powr p - VBL powr p) powr (1 / p)"
    using assms xy bx by (intro powr_less_mono2) auto
  then have "a * (x powr p - VBL powr p) powr (1 / p) < a * (y powr p - VBL powr p) powr (1 / p)"
    using assms by simp
  then show ?thesis
    using assms xy bx by (simp add: lambert_jonas_nonneg)
qed

text \<open>
  Claim C3 as stated fails: with \<open>a = 1\<close>, \<open>p = 2\<close>, \<open>VBL = 1\<close> the velocity \<open>Vi = -5\<close> is
  below \<open>VBL\<close>, yet \<open>Vi**p = 25 > 1 = VBL**p\<close>, and the function returns \<open>sqrt 24\<close>, not \<open>0\<close>.
\<close>

theorem C3_counterexample:
  "(0::real) < 1 \<and> (0::real) < 2 \<and> (-5::real) \<le> 1 \<and> lambert_jonas_func (-5) 1 2 1 = sqrt 24
   \<and> lambert_jonas_func (-5) 1 2 1 \<noteq> 0"
  by (simp add: lambert_jonas_func_def np_power_def powr_half_sqrt)

text \<open>
  Claim C3, amended: for \<open>a > 0\<close>, \<open>p > 0\<close>, \<open>VBL > 0\<close>, the function returns
  \<open>a * (Vi^p - VBL^p)^(1/p)\<close> whenever \<open>Vi^p > VBL^p\<close> (both powers as NumPy computes them),
  it returns exactly \<open>0\<close> for every \<open>Vi\<close> with \<open>0 \<le> Vi \<le> VBL\<close>, and it is strictly
  increasing in \<open>Vi\<close> on \<open>Vi > VBL\<close>. No input raises: the function is total.
\<close>

theorem C3_lambert_jonas:
  assumes "0 < a" "0 < p" "0 < VBL"
  shows "(\<forall>Vi u w. np_power Vi p = Some u \<and> np_power VBL p = Some w \<and> w < u \<longrightarrow>
            lambert_jonas_func Vi a p VBL = a * (u - w) powr (1 / p))
       \<and> (\<forall>Vi. 0 \<le> Vi \<and> Vi \<le> VBL \<longrightarrow> lambert_jonas_func Vi a p VBL = 0)
       \<and> (\<forall>x y. VBL < x \<and> x < y \<longrightarrow>
            lambert_jonas_func x a p VBL < lambert_jonas_func y a p VBL)"
proof (intro conjI allI impI)
  fix Vi u w
  assume "np_power Vi p = Some u \<and> np_power VBL p = Some w \<and> w < u"
  then show "lambert_jonas_func Vi a p VBL = a * (u - w) powr (1 / p)"
    by (simp add: lambert_jonas_func_def)
next
  fix Vi :: real
  assume "0 \<le> Vi \<and> Vi \<le> VBL"
  then show "lambert_jonas_func Vi a p VBL = 0"
    using assms by (simp add: lambert_jonas_below)
next
  fix x y :: real
  assume "VBL < x \<and> x < y"
  then show "lambert_jonas_func x a p VBL < lambert_jonas_func y a p VBL"
    using assms by (simp add: lambert_jonas_strict_mono)
qed

theorem C3_lambert_jonas_witness:
  "lambert_jonas_func 5 1 2 3 = 4 \<and> lambert_jonas_func 2 1 2 3 = 0
   \<and> lambert_jonas_func 4 1 2 3 < lambert_jonas_func 5 1 2 3"
proof -
  have h: "(0::real) < 1" "(0::real) < 2" "(0::real) < 3" by simp_all
  note c = C3_lambert_jonas [OF h]
  have pw: "np_power 5 2 = Some 25 \<and> np_power 3 2 = Some 9 \<and> (9::real) < 25"
    by (simp add: np_power_def)
  have "sqrt ((4::real)^2) = 4" by (rule real_sqrt_unique) auto
  then have s16: "(16::real) powr (1 / 2) = 4" by (simp add: powr_half_sqrt)
  from c have "np_power 5 2 = Some 25 \<and> np_power 3 2 = Some 9 \<and> (9::real) < 25 \<longrightarrow>
     lambert_jonas_func 5 1 2 3 = 1 * (25 - 9) powr (1 / 2)" by blast
  with pw s16 have 1: "lambert_jonas_func 5 1 2 3 = 4" by simp
  from c have "(0::real) \<le> 2 \<and> (2::real) \<le> 3 \<longrightarrow> lambert_jonas_func 2 1 2 3 = 0" by blast
  then have 2: "lambert_jonas_func 2 1 2 3 = 0" by simp
  from c have "(3::real) < 4 \<and> (4::real) < 5 \<longrightarrow> lambert_jonas_func 4 1 2 3 < lambert_jonas_func 5 1 2 3" by blast
  then have 3: "lambert_jonas_func 4 1 2 3 < lambert_jonas_func 5 1 2 3" by simp
  from 1 2 3 show ?thesis by simp
qed

subsection \<open>The shipped configuration\<close>

text \<open>
  Claim C1: with \<open>config.py\<close> as shipped, which defines none of \<open>MAX_TOTAL_RUNS\<close>,
  \<open>EXPONENTIAL_STEP\<close>, \<open>VR_FILTER_THRESHOLD\<close>, \<open>MAX_BISECTION_ITERATIONS\<close>,
  \<open>MIN_DATAPOINTS_FOR_FIT\<close>, \<open>FIT_BOUNDS\<close>, \<open>INITIAL_GUESS\<close>, \<open>TEMPLATE_FILE\<close>, every call of
  \<open>find_v50_for_config\<close> raises \<open>AttributeError\<close> for \<open>MAX_TOTAL_RUNS\<close>, whatever the world,
  the optimiser and the thickness configuration are: the first test of the expansion-loop
  condition raises, before any experiment. \<open>main\<close> returns one row per thickness
  configuration, five in all, each with status \<open>critical_failure\<close> and without a run count.
\<close>

theorem C1_shipped_config_critical_failure:
  "MAX_TOTAL_RUNS shipped_config = None
   \<and> EXPONENTIAL_STEP shipped_config = None
   \<and> VR_FILTER_THRESHOLD shipped_config = None
   \<and> MAX_BISECTION_ITERATIONS shipped_config = None
   \<and> MIN_DATAPOINTS_FOR_FIT shipped_config = None
   \<and> FIT_BOUNDS shipped_config = None
   \<and> INITIAL_GUESS shipped_config = None
   \<and> TEMPLATE_FILE shipped_config = None
   \<and> find_v50_for_config shipped_config world fit thickness_config config_index
         = Some (Inl (AttributeError ''MAX_TOTAL_RUNS''))
   \<and> (\<exists>rows. main shipped_config world fit = Some (Inr rows)
         \<and> length rows = 5
         \<and> map (\<lambda>row. map_of row ''status'') rows = [Some (PStr ''critical_failure''), Some (PStr ''critical_failure''),
                Some (PStr ''critical_failure''), Some (PStr ''critical_failure''),
                Some (PStr ''critical_failure'')]
         \<and> map (\<lambda>row. map_of row ''runs'') rows = [None, None, None, None, None])"
proof -
  have f: "\<And>t i. find_v50_for_config shipped_config world fit t i
             = Some (Inl (AttributeError ''MAX_TOTAL_RUNS''))"
    by (simp add: find_v50_for_config_def shipped_config_def)
  have m: "main shipped_config world fit =
             map_option Inr (process_configs shipped_config world fit 0
               [(2, 2, 2, 2), (5 / 2, 5 / 2, 5 / 2, 5 / 2), (3, 3, 3, 3),
                (7 / 2, 7 / 2, 7 / 2, 7 / 2), (4, 4, 4, 4)] [])"
    by (simp add: main_def shipped_config_def backslash_def)
  show ?thesis
    unfolding m
    by (simp add: f row_prefix_def) (simp add: shipped_config_def)
qed

subsection \<open>The runner's return value\<close>

lemma run_simulation_nonempty: "run_simulation env \<noteq> []"
  by (simp add: run_simulation_def Let_def split: option.splits)

lemma observe_with_runner_Observed:
  "\<exists>is_penetrated vr. observe_with_runner envs parse n v = Observed is_penetrated vr"
  using run_simulation_nonempty [of "envs n v"]
  by (cases "parse n v") (simp add: observe_with_runner_def truthy_dict_def Let_def)

lemma expansion_body_Leave_failed:
  assumes "expansion_body cfg obs multiplier st = Inr (Leave st')"
  shows "obs (run_count st + 1) (current_v st) = ExperimentFailed"
  using assms
  by (auto simp: expansion_body_def Let_def
           split: option.splits outcome.splits if_splits sum.splits)

lemma expansion_body_never_leaves:
  "expansion_body cfg (observe_with_runner envs parse) multiplier st \<noteq> Inr (Leave st')"
  using expansion_body_Leave_failed [of cfg "observe_with_runner envs parse" multiplier st st']
    observe_with_runner_Observed [of envs parse "run_count st + 1" "current_v st"]
  by auto

text \<open>
  Claim C10: \<open>run_simulation\<close> returns a non-empty dict on every path, so the dict is true
  as a condition; the solver's \<open>not sim_success\<close> is then false for every experiment, and an
  observation made through the runner is never \<open>ExperimentFailed\<close>, also when the dict
  says \<open>'success': False\<close> (as it does when the executable is missing). With such
  observations the expansion body never takes the \<open>break\<close> of its failure branch.
\<close>

theorem C10_run_simulation_always_truthy:
  "run_simulation env \<noteq> []
   \<and> truthy_dict (run_simulation env)
   \<and> observe_with_runner envs parse n v \<noteq> ExperimentFailed
   \<and> map_of (run_simulation (env\<lparr>executable_exists := False\<rparr>)) ''success'' = Some (PBool False)
   \<and> expansion_body cfg (observe_with_runner envs parse) multiplier st \<noteq> Inr (Leave st')"
proof -
  have "map_of (run_simulation (env\<lparr>executable_exists := False\<rparr>)) ''success'' = Some (PBool False)"
    by (simp add: run_simulation_def)
  moreover have "observe_with_runner envs parse n v \<noteq> ExperimentFailed"
    using observe_with_runner_Observed [of envs parse n v] by auto
  ultimately show ?thesis
    using run_simulation_nonempty [of env] expansion_body_never_leaves [of cfg envs parse multiplier st st']
    by (simp add: truthy_dict_def)
qed

subsection \<open>Preparing the points for the fit\<close>

lemma dedup_sort_props:
  "distinct (dedup_sort points)" "sorted (dedup_sort points)" "set (dedup_sort points) = set points"
  by (simp_all add: dedup_sort_def)

lemma distinct_filter_eq_le1: "distinct xs \<Longrightarrow> length (filter (\<lambda>q. q = p) xs) \<le> 1"
  by (induction xs) (auto simp: filter_empty_conv)

text \<open>
  Claim C9 as stated fails: two accumulated points with the same impact velocity and
  different residual velocities both survive \<open>sorted(list(set(...)))\<close>.
\<close>

theorem C9_counterexample:
  "dedup_sort [(1000, 50), (1000, 60)] = [(1000, 50), (1000, 60)]
   \<and> length (filter (\<lambda>p. fst p = 1000) (dedup_sort [(1000, 50), (1000, 60)])) = 2"
  by (simp add: dedup_sort_def)

text \<open>
  Claim C9, amended: the points handed to the fitter are deduplicated by equality of the
  whole pair \<open>(impact_velocity, residual_velocity)\<close>: the prepared list is sorted, has the
  same elements as the accumulated list, and holds each pair at most once.
\<close>

theorem C9_dedup_by_pair:
  "distinct (dedup_sort points) \<and> sorted (dedup_sort points)
   \<and> set (dedup_sort points) = set points
   \<and> length (filter (\<lambda>q. q = p) (dedup_sort points)) \<le> 1"
  using distinct_filter_eq_le1 [OF dedup_sort_props(1), of p points]
  by (simp add: dedup_sort_props)

text \<open>
  Claim C8 as stated fails for a negative impact velocity: for the single point
  \<open>(-100, 50)\<close> the bound is \<open>min(800, -99) = -99\<close>, above the smallest impact velocity.
\<close>

theorem C8_counterexample:
  "vbl_upper_bound \<lparr>a_bounds = (1 / 10, 2), p_bounds = (11 / 10, 5), VBL_bounds = (50, 800)\<rparr>
       (map fst [(-100 :: real, 50 :: real)]) = -99
   \<and> \<not> vbl_upper_bound \<lparr>a_bounds = (1 / 10, 2), p_bounds = (11 / 10, 5), VBL_bounds = (50, 800)\<rparr>
       (map fst [(-100 :: real, 50 :: real)]) \<le> Min (set (map fst [(-100, 50 :: real)]))"
  by (simp add: vbl_upper_bound_def)

text \<open>
  Claim C8, amended: for every non-empty list of fitting points whose impact velocities
  are non-negative, the upper bound for \<open>VBL\<close> equals
  \<open>min(static_upper_bound, 0.99 * min(impact velocities))\<close> and is at most the smallest
  impact velocity, hence at most the impact velocity of every fitting point.
\<close>

theorem C8_fit_bound_safety:
  assumes "filtered_points \<noteq> []" "\<forall>p \<in> set filtered_points. 0 \<le> fst p"
  shows "vbl_upper_bound fb (map fst filtered_points)
           = min (snd (VBL_bounds fb)) (99 / 100 * Min (fst ` set filtered_points))
       \<and> vbl_upper_bound fb (map fst filtered_points) \<le> Min (fst ` set filtered_points)
       \<and> (\<forall>p \<in> set filtered_points. vbl_upper_bound fb (map fst filtered_points) \<le> fst p)"
proof -
  let ?m = "Min (fst ` set filtered_points)"
  have fin: "finite (fst ` set filtered_points)" "fst ` set filtered_points \<noteq> {}"
    using assms(1) by auto
  have "?m \<in> fst ` set filtered_points" using fin by (rule Min_in)
  then have m0: "0 \<le> ?m" using assms(2) by auto
  have ub: "vbl_upper_bound fb (map fst filtered_points) \<le> ?m"
    using m0 by (simp add: vbl_upper_bound_def min_def)
  have le: "\<forall>p \<in> set filtered_points. ?m \<le> fst p"
    using fin by simp
  have all: "\<forall>p \<in> set filtered_points. vbl_upper_bound fb (map fst filtered_points) \<le> fst p"
  proof
    fix p assume "p \<in> set filtered_points"
    with le have "?m \<le> fst p" by blast
    with ub show "vbl_upper_bound fb (map fst filtered_points) \<le> fst p" by linarith
  qed
  have eq: "vbl_upper_bound fb (map fst filtered_points)
           = min (snd (VBL_bounds fb)) (99 / 100 * Min (fst ` set filtered_points))"
    by (simp add: vbl_upper_bound_def mult.commute)
  from eq ub all show ?thesis by blast
qed

theorem C8_fit_bound_safety_witness:
  "vbl_upper_bound \<lparr>a_bounds = (1 / 10, 2), p_bounds = (11 / 10, 5), VBL_bounds = (50, 800)\<rparr>
       (map fst [(1000 :: real, 50 :: real), (900, 20)]) = 800
   \<and> vbl_upper_bound \<lparr>a_bounds = (1 / 10, 2), p_bounds = (11 / 10, 5), VBL_bounds = (50, 800)\<rparr>
       (map fst [(1000 :: real, 50 :: real), (900, 20)]) \<le> 900"
proof -
  have h1: "[(1000 :: real, 50 :: real), (900, 20)] \<noteq> []" by simp
  have h2: "\<forall>p \<in> set [(1000 :: real, 50 :: real), (900, 20)]. 0 \<le> fst p" by simp
  from C8_fit_bound_safety [OF h1 h2] show ?thesis by simp
qed

subsection \<open>The sampling loop\<close>

text \<open>
  From a stuck state one iteration takes the branch of line 125, adds two to
  \<open>direction_toggle\<close> and changes nothing else: the next state is stuck again, and the
  loop does not return.
\<close>

lemma stuck_body:
  assumes "stuck cfg target_samples s"
  shows "\<exists>s'. sampling_body cfg obs sample_step s = Inr s' \<and> stuck cfg target_samples s'"
  using assms
  by (auto simp: stuck_def sampling_body_def sampling_cond_def Let_def split: if_splits option.splits)

lemma sampling_stuck_aux:
  assumes "sampling cfg obs target_samples sample_step s = Some y"
  shows "\<not> stuck cfg target_samples s"
proof (rule sampling.raw_induct [where P = "\<lambda>cfg obs target_samples sample_step s y. \<not> stuck cfg target_samples s", OF _ assms])
  fix sampling' cfg obs target_samples sample_step s y
  assume ih: "\<And>cfg obs target_samples sample_step s y.
            sampling' cfg obs target_samples sample_step s = Some y \<Longrightarrow> \<not> stuck cfg target_samples s"
    and body: "(case sampling_cond cfg target_samples s of
        Inl e \<Rightarrow> Some (Inl e)
      | Inr go \<Rightarrow>
          if go
          then (case sampling_body cfg obs sample_step s of
                  Inl e \<Rightarrow> Some (Inl e)
                | Inr s' \<Rightarrow> sampling' cfg obs target_samples sample_step s')
          else Some (Inr (fst s))) = Some y"
  show "\<not> stuck cfg target_samples s"
  proof
    assume st: "stuck cfg target_samples s"
    then obtain s' where b: "sampling_body cfg obs sample_step s = Inr s'"
      and st': "stuck cfg target_samples s'"
      using stuck_body by blast
    from st have c: "sampling_cond cfg target_samples s = Inr True"
      by (simp add: stuck_def)
    from body b c have "sampling' cfg obs target_samples sample_step s' = Some y" by simp
    with ih st' show False by blast
  qed
qed

lemma sampling_stuck:
  assumes "stuck cfg target_samples s"
  shows "sampling cfg obs target_samples sample_step s = None"
  using assms sampling_stuck_aux by (cases "sampling cfg obs target_samples sample_step s") auto

lemma sampling_unfold:
  assumes "\<not> stuck cfg target_samples s"
  shows "sampling cfg obs target_samples sample_step s =
     (case sampling_cond cfg target_samples s of
        Inl e \<Rightarrow> Some (Inl e)
      | Inr go \<Rightarrow>
          if go
          then (case sampling_body cfg obs sample_step s of
                  Inl e \<Rightarrow> Some (Inl e)
                | Inr s' \<Rightarrow> sampling cfg obs target_samples sample_step s')
          else Some (Inr (fst s)))"
  by (rule sampling.simps)

lemma r6: "py_round6 (numeral n) = numeral n"
  by (simp add: py_round6_def Let_def)

text \<open>
  Claim C4 fails on the code. With linear steps of \<open>50\<close> (no growth factor), a filter
  threshold of \<open>100\<close> and a budget of \<open>20\<close> runs, the world \<open>steep_world\<close> gives the
  bracket \<open>[300, 350]\<close> and one valid point; the samples at \<open>340, 360, 330, 370, 320, 380,
  310, 390\<close> add none, and the next downward candidate is \<open>300 = v_low\<close> after \<open>10\<close> runs.
  From there the loop rejects the downward candidate for ever, and \<open>find_v50_for_config\<close>
  does not return.
\<close>

theorem C4_sampling_never_returns:
  "find_v50_for_config (demo_config\<lparr>GROWTH_FACTOR := None, VR_FILTER_THRESHOLD := Some 100\<rparr>)
     steep_world fit thickness_config config_index = None"
  by (simp add: find_v50_for_config_def demo_config_def growth_multiplier_def initial_locals_def
        expansion_body_def Let_def steep_world_def vr_in_range_def filter_points_def
        sampling_unfold sampling_stuck stuck_def sampling_cond_def sampling_body_def advance_def r6)

subsection \<open>The result records\<close>

text \<open>
  Claim C6 fails on the code: when no experiment penetrates within the budget, the
  record returned at line 182 has the keys \<open>status\<close>, \<open>reason\<close> and \<open>runs\<close> only; the
  keys \<open>v_low\<close>, \<open>v_high\<close> and \<open>points_used\<close> are missing.
\<close>

theorem C6_no_penetration_record:
  "find_v50_for_config (demo_config\<lparr>MAX_TOTAL_RUNS := Some 3\<rparr>) never_penetrated fit
       thickness_config config_index
     = Some (Inr [(''status'', PStr ''failed''),
                  (''reason'', PStr ''No penetration found in exponential search''),
                  (''runs'', PInt 3)])
   \<and> map_of [(''status'', PStr ''failed''),
              (''reason'', PStr ''No penetration found in exponential search''),
              (''runs'', PInt 3)] ''v_low'' = None
   \<and> map_of [(''status'', PStr ''failed''),
              (''reason'', PStr ''No penetration found in exponential search''),
              (''runs'', PInt 3)] ''v_high'' = None
   \<and> map_of [(''status'', PStr ''failed''),
              (''reason'', PStr ''No penetration found in exponential search''),
              (''runs'', PInt 3)] ''points_used'' = None"
  by (simp add: find_v50_for_config_def demo_config_def growth_multiplier_def initial_locals_def
        expansion_body_def Let_def never_penetrated_def)

lemma two_runs_expansion:
  "expansion (demo_config\<lparr>MAX_TOTAL_RUNS := Some 2\<rparr>) (always_penetrated t)
       (growth_multiplier (demo_config\<lparr>MAX_TOTAL_RUNS := Some 2\<rparr>)) (initial_locals 300)
     = Some (Inr \<lparr>v_low = 0, v_high = Finite 300, penetration_points = [(300, 50), (290, 50)],
                  run_count = 2, current_v = 300, expansion_iter = 1\<rparr>)"
  by (simp add: demo_config_def growth_multiplier_def initial_locals_def
        expansion_body_def Let_def always_penetrated_def vr_in_range_def filter_points_def
        sampling_unfold stuck_def sampling_cond_def sampling_body_def advance_def r6)

lemma two_runs_bisection:
  "bisection (demo_config\<lparr>MAX_TOTAL_RUNS := Some 2\<rparr>) (always_penetrated t) 0
       (with_v_high \<lparr>v_low = 0, v_high = Finite 300, penetration_points = [(300, 50), (290, 50)],
                  run_count = 2, current_v = 300, expansion_iter = 1\<rparr> 300)
     = Inr (0, \<lparr>v_low = 0, v_high = 300, penetration_points = [(300, 50), (290, 50)],
                  run_count = 2, current_v = 300, expansion_iter = 1\<rparr>)"
  by (simp add: demo_config_def with_v_high_def)

lemma two_runs_filter:
  "filter_points (demo_config\<lparr>MAX_TOTAL_RUNS := Some 2\<rparr>) (dedup_sort [(300, 50), (290, 50)])
     = Inr [(290, 50), (300, 50)]"
  by (simp add: demo_config_def filter_points_def dedup_sort_def)

text \<open>
  Claim C7 as stated fails: the reason of the record is the string
  \<open>Not enough data points for fitting\<close>, not \<open>insufficient_data\<close>. Here two runs
  penetrate, two points are kept and five are required.
\<close>

theorem C7_counterexample:
  "find_v50_for_config (demo_config\<lparr>MAX_TOTAL_RUNS := Some 2\<rparr>) always_penetrated diverging_fit
       (2, 2, 2, 2) 1
     = Some (Inr [(''status'', PStr ''failed''),
                  (''reason'', PStr ''Not enough data points for fitting''),
                  (''v_low'', PFloat (Finite 0)),
                  (''v_high'', PFloat (Finite 300)),
                  (''runs'', PInt 2),
                  (''points_used'', PPoints [(290, 50), (300, 50)])])
   \<and> map_of [(''status'', PStr ''failed''),
              (''reason'', PStr ''Not enough data points for fitting''),
              (''v_low'', PFloat (Finite 0)),
              (''v_high'', PFloat (Finite 300)),
              (''runs'', PInt 2),
              (''points_used'', PPoints [(290, 50), (300, 50)])] ''reason''
       \<noteq> Some (PStr ''insufficient_data'')"
proof -
  let ?cfg = "demo_config\<lparr>MAX_TOTAL_RUNS := Some 2\<rparr>"
  have h: "BASE_WORKDIR ?cfg = Some ''results''" "INITIAL_VELOCITY ?cfg = Some 300"
    "MIN_DATAPOINTS_FOR_FIT ?cfg = Some 5"
    by (simp_all add: demo_config_def)
  have "find_v50_for_config ?cfg always_penetrated diverging_fit (2, 2, 2, 2) 1
          = Some (fit_stage ?cfg diverging_fit
              \<lparr>v_low = 0, v_high = 300, penetration_points = [(300, 50), (290, 50)],
                run_count = 2, current_v = 300, expansion_iter = 1\<rparr>)"
    unfolding find_v50_for_config_def
    by (simp only: h two_runs_expansion two_runs_bisection option.case sum.case prod.case
          xfloat.case locals.simps)
  then show ?thesis
    using two_runs_filter
    by (simp add: fit_stage_def failed_record_def Let_def h) (simp add: dedup_sort_def)
qed

text \<open>
  Claim C7, amended: when the search has ended with a finite bracket and fewer than
  \<open>MIN_DATAPOINTS_FOR_FIT\<close> points remain after filtering, \<open>find_v50_for_config\<close> returns
  the same record whatever the optimiser is (it is not called), with status \<open>failed\<close>,
  reason \<open>Not enough data points for fitting\<close>, and \<open>v_low\<close> and \<open>v_high\<close> as the search
  left them.
\<close>

theorem C7_insufficient_data:
  assumes "BASE_WORKDIR cfg = Some base" "INITIAL_VELOCITY cfg = Some initial_velocity"
    and "expansion cfg (world thickness_config) (growth_multiplier cfg)
           (initial_locals initial_velocity) = Some (Inr st)"
    and "v_high st = Finite vh"
    and "bisection cfg (world thickness_config) 0 (with_v_high st vh) = Inr (bisection_iter, st')"
    and "filter_points cfg (dedup_sort (penetration_points st')) = Inr filtered_points"
    and "MIN_DATAPOINTS_FOR_FIT cfg = Some min_points"
    and "int (length filtered_points) < min_points"
  shows "\<exists>result.
           (\<forall>fit. find_v50_for_config cfg world fit thickness_config config_index
                     = Some (Inr result))
         \<and> map_of result ''status'' = Some (PStr ''failed'')
         \<and> map_of result ''reason'' = Some (PStr ''Not enough data points for fitting'')
         \<and> map_of result ''v_low'' = Some (PFloat (Finite (v_low st')))
         \<and> map_of result ''v_high'' = Some (PFloat (Finite (v_high st')))"
  using assms
  by (intro exI [of _ "failed_record ''Not enough data points for fitting'' st'
                         (dedup_sort (penetration_points st'))"])
     (simp add: find_v50_for_config_def fit_stage_def failed_record_def Let_def)

theorem C7_insufficient_data_witness:
  "\<exists>result.
     (\<forall>fit. find_v50_for_config (demo_config\<lparr>MAX_TOTAL_RUNS := Some 2\<rparr>) always_penetrated fit
               (2, 2, 2, 2) 1 = Some (Inr result))
     \<and> map_of result ''status'' = Some (PStr ''failed'')
     \<and> map_of result ''reason'' = Some (PStr ''Not enough data points for fitting'')
     \<and> map_of result ''v_low'' = Some (PFloat (Finite 0))
     \<and> map_of result ''v_high'' = Some (PFloat (Finite 300))"
proof -
  let ?cfg = "demo_config\<lparr>MAX_TOTAL_RUNS := Some 2\<rparr>"
  let ?st' = "\<lparr>v_low = 0, v_high = 300 :: real, penetration_points = [(300, 50), (290, 50)],
                run_count = 2, current_v = 300, expansion_iter = 1\<rparr>"
  have h1: "BASE_WORKDIR ?cfg = Some ''results''" by (simp add: demo_config_def)
  have h2: "INITIAL_VELOCITY ?cfg = Some 300" by (simp add: demo_config_def)
  have h4: "v_high \<lparr>v_low = 0, v_high = Finite 300, penetration_points = [(300, 50), (290, 50)],
                  run_count = 2, current_v = 300, expansion_iter = 1\<rparr> = Finite 300" by simp
  have h6: "filter_points ?cfg (dedup_sort (penetration_points ?st')) = Inr [(290, 50), (300, 50)]"
    using two_runs_filter by simp
  have h7: "MIN_DATAPOINTS_FOR_FIT ?cfg = Some 5" by (simp add: demo_config_def)
  have h8: "int (length [(290 :: real, 50 :: real), (300, 50)]) < 5" by simp
  from C7_insufficient_data [OF h1 h2 two_runs_expansion h4 two_runs_bisection h6 h7 h8]
  show ?thesis by simp
qed

subsection \<open>The bisection loop\<close>

text \<open>
  One iteration either stops at the convergence test and changes nothing, or runs one
  experiment and halves the bracket, whatever the outcome is: a failed experiment moves
  \<open>v_low\<close> to the midpoint.
\<close>

lemma bisection_body_Break:
  assumes "bisection_body cfg obs st = Inr (Break st')" "CONVERGENCE_TOLERANCE cfg = Some t"
  shows "st' = st \<and> v_high st - v_low st < t"
  using assms
  by (auto simp: bisection_body_def Let_def
           split: option.splits outcome.splits if_splits sum.splits)

lemma bisection_body_Continue:
  assumes "bisection_body cfg obs st = Inr (Continue st')" "CONVERGENCE_TOLERANCE cfg = Some t"
  shows "\<not> v_high st - v_low st < t
       \<and> v_high st' - v_low st' = (v_high st - v_low st) / 2
       \<and> run_count st' = run_count st + 1"
  using assms
  by (auto simp: bisection_body_def Let_def field_simps
           split: option.splits outcome.splits if_splits sum.splits)

lemma bisection_body_defined:
  assumes "experiment_names_defined cfg" "CONVERGENCE_TOLERANCE cfg = Some t"
  shows "\<exists>c. bisection_body cfg obs st = Inr c"
  using assms
  by (auto simp: bisection_body_def experiment_names_defined_def vr_in_range_def Let_def
           split: option.splits outcome.splits if_splits sum.splits)

lemma bisection_trials_le:
  assumes "CONVERGENCE_TOLERANCE cfg = Some t"
    and "bisection cfg obs i st = Inr (k, st')"
    and "v_high st - v_low st < t * 2 ^ n"
  shows "i \<le> k \<and> k \<le> i + int n \<and> run_count st' = run_count st + (k - i)"
  using assms(2,3)
proof (induction n arbitrary: i st)
  case 0
  then have w: "v_high st - v_low st < t" by simp
  have nc: "\<And>s. bisection_body cfg obs st \<noteq> Inr (Continue s)"
    using bisection_body_Continue [OF _ assms(1)] w by blast
  from "0.prems"(1) show ?case
    by (subst (asm) bisection.simps)
       (auto split: option.splits if_splits sum.splits control.splits
             dest: bisection_body_Break [OF _ assms(1)] simp: nc)
next
  case (Suc n)
  show ?case
  proof (cases "\<exists>s. bisection_body cfg obs st = Inr (Continue s)")
    case True
    then obtain s where s: "bisection_body cfg obs st = Inr (Continue s)" by blast
    from bisection_body_Continue [OF s assms(1)] Suc.prems(2)
    have ws: "v_high s - v_low s < t * 2 ^ n" and rs: "run_count s = run_count st + 1"
      by auto
    from Suc.prems(1) s
    have "bisection cfg obs i st = Inr (i, st) \<or> bisection cfg obs (i + 1) s = Inr (k, st')"
      by (subst (asm) bisection.simps) (auto split: option.splits if_splits)
    then show ?thesis
    proof
      assume "bisection cfg obs i st = Inr (i, st)"
      with Suc.prems(1) show ?thesis by simp
    next
      assume "bisection cfg obs (i + 1) s = Inr (k, st')"
      from Suc.IH [OF this ws] rs show ?thesis by simp
    qed
  next
    case False
    from Suc.prems(1) False show ?thesis
      by (subst (asm) bisection.simps)
         (auto split: option.splits if_splits sum.splits control.splits
               dest: bisection_body_Break [OF _ assms(1)])
  qed
qed

lemma bisection_iter_le:
  assumes "MAX_BISECTION_ITERATIONS cfg = Some m"
    and "bisection cfg obs i st = Inr (k, st')"
  shows "k \<le> max i m"
  using assms(2)
proof (induction "nat (m - i)" arbitrary: i st)
  case 0
  then have "\<not> i < m" by simp
  with "0.prems" assms(1) show ?case
    by (subst (asm) bisection.simps) auto
next
  case (Suc d)
  show ?case
  proof (cases "\<exists>s. bisection_body cfg obs st = Inr (Continue s)")
    case True
    then obtain s where s: "bisection_body cfg obs st = Inr (Continue s)" by blast
    from Suc.prems s assms(1)
    have "bisection cfg obs i st = Inr (i, st) \<or> bisection cfg obs (i + 1) s = Inr (k, st')"
      by (subst (asm) bisection.simps) (auto split: option.splits if_splits)
    then show ?thesis
    proof
      assume "bisection cfg obs i st = Inr (i, st)"
      with Suc.prems show ?thesis by simp
    next
      assume r: "bisection cfg obs (i + 1) s = Inr (k, st')"
      from Suc.hyps(2) have "d = nat (m - (i + 1))" by simp
      from Suc.hyps(1) [OF this r] Suc.hyps(2) show ?thesis by simp
    qed
  next
    case False
    from Suc.prems assms(1) False have "k = i"
      by (subst (asm) bisection.simps)
         (auto split: option.splits if_splits sum.splits control.splits)
    then show ?thesis by simp
  qed
qed

lemma bisection_exact:
  assumes names: "experiment_names_defined cfg"
    and tol: "CONVERGENCE_TOLERANCE cfg = Some t" "0 < t"
    and lim: "MAX_BISECTION_ITERATIONS cfg = Some m" "MAX_TOTAL_RUNS cfg = Some r"
    and "i + int n \<le> m" "run_count st + int n \<le> r"
    and "v_high st - v_low st < t * 2 ^ n" "0 < n \<longrightarrow> t * 2 ^ (n - 1) \<le> v_high st - v_low st"
  shows "\<exists>st'. bisection cfg obs i st = Inr (i + int n, st') \<and> v_high st' - v_low st' < t"
  using assms(6-9)
proof (induction n arbitrary: i st)
  case 0
  then have w: "v_high st - v_low st < t" by simp
  obtain c where c: "bisection_body cfg obs st = Inr c"
    using bisection_body_defined [OF names tol(1)] by blast
  have "c = Break st"
    using c bisection_body_Continue [OF _ tol(1)] bisection_body_Break [OF _ tol(1)] w
    by (cases c) auto
  with c w lim show ?case
    by (subst bisection.simps) auto
next
  case (Suc n)
  from Suc.prems(4) tol(2) have nw: "\<not> v_high st - v_low st < t"
    by (smt (verit) mult_le_cancel_left1 one_le_numeral one_le_power diff_Suc_1 zero_less_Suc)
  obtain c where c: "bisection_body cfg obs st = Inr c"
    using bisection_body_defined [OF names tol(1)] by blast
  from c nw bisection_body_Break [OF _ tol(1)] obtain s where s: "c = Continue s"
    by (cases c) auto
  from bisection_body_Continue [OF c [unfolded s] tol(1)]
  have hs: "v_high s - v_low s = (v_high st - v_low st) / 2" "run_count s = run_count st + 1"
    by auto
  have 1: "i + 1 + int n \<le> m" "run_count s + int n \<le> r"
    using Suc.prems(1,2) hs by auto
  have 2: "v_high s - v_low s < t * 2 ^ n"
    using Suc.prems(3) hs by simp
  have 3: "0 < n \<longrightarrow> t * 2 ^ (n - 1) \<le> v_high s - v_low s"
  proof
    assume "0 < n"
    then obtain j where j: "n = Suc j" by (cases n) auto
    with Suc.prems(4) hs show "t * 2 ^ (n - 1) \<le> v_high s - v_low s" by simp
  qed
  from Suc.IH [OF 1 2 3] obtain st' where
    r: "bisection cfg obs (i + 1) s = Inr (i + 1 + int n, st')" "v_high st' - v_low st' < t"
    by blast
  have "bisection cfg obs i st = bisection cfg obs (i + 1) s"
    using c s lim Suc.prems(1,2)
    by (subst bisection.simps) auto
  with r show ?case by (auto simp: algebra_simps)
qed

lemma bisection_returns:
  assumes names: "experiment_names_defined cfg"
    and tol: "CONVERGENCE_TOLERANCE cfg = Some t"
    and lim: "MAX_BISECTION_ITERATIONS cfg = Some m" "MAX_TOTAL_RUNS cfg = Some r"
  shows "\<exists>k st'. bisection cfg obs i st = Inr (k, st')"
proof (induction "nat (m - i)" arbitrary: i st)
  case 0
  then have "\<not> i < m" by simp
  with lim show ?case by (subst bisection.simps) auto
next
  case (Suc d)
  obtain c where c: "bisection_body cfg obs st = Inr c"
    using bisection_body_defined [OF names tol] by blast
  show ?case
  proof (cases c)
    case (Continue s)
    from Suc.hyps(2) have "d = nat (m - (i + 1))" by simp
    from Suc.hyps(1) [OF this] obtain k st' where "bisection cfg obs (i + 1) s = Inr (k, st')"
      by blast
    with c Continue lim show ?thesis
      by (subst bisection.simps) auto
  next
    case (Break s)
    with c lim show ?thesis by (subst bisection.simps) auto
  qed
qed

lemma below_power_of_floor_log:
  fixes w t :: real
  assumes "0 < w" "0 < t"
  shows "w < t * 2 ^ nat (\<lfloor>log 2 (w / t)\<rfloor> + 1)"
proof -
  let ?x = "w / t" and ?z = "\<lfloor>log 2 (w / t)\<rfloor> + 1"
  have x: "0 < ?x" using assms by simp
  have "?x < 2 powr (of_int ?z)"
    using floor_log_eq_powr_iff [OF x, of 2 "\<lfloor>log 2 ?x\<rfloor>"] by simp
  also have "(2::real) powr (of_int ?z) \<le> 2 powr (real (nat ?z))"
    by (intro powr_mono) auto
  also have "\<dots> = 2 ^ nat ?z"
    by (simp add: powr_realpow)
  finally have "?x < 2 ^ nat ?z" .
  with assms show ?thesis by (simp add: field_simps)
qed

lemma log2_16: "log 2 16 = (4::real)"
proof -
  have "log 2 ((2::real) ^ 4) = 4" by (subst log_pow_cancel) auto
  then show ?thesis by simp
qed

text \<open>
  Claim C5 as stated fails when the ratio of the bracket width to the tolerance is a
  power of two: for the bracket \<open>[920, 1000]\<close> and tolerance \<open>5\<close> the loop performs \<open>5\<close>
  trials (after four the width is exactly \<open>5\<close>, which is not below the tolerance), but
  \<open>ceil(log2(80 / 5)) = 4\<close>.
\<close>

theorem C5_counterexample:
  "bisection demo_config (always_penetrated (2, 2, 2, 2)) 0
      \<lparr>v_low = 920, v_high = 1000, penetration_points = [], run_count = 0,
        current_v = 1000, expansion_iter = 0\<rparr>
     = Inr (5, \<lparr>v_low = 920, v_high = 1845 / 2,
                 penetration_points = [(960, 50), (940, 50), (930, 50), (925, 50), (1845 / 2, 50)],
                 run_count = 5, current_v = 1000, expansion_iter = 0\<rparr>)
   \<and> \<lceil>log 2 ((1000 - 920) / 5)\<rceil> = 4
   \<and> \<not> (5 :: int) \<le> \<lceil>log 2 ((1000 - 920) / 5)\<rceil>"
proof -
  have l: "\<lceil>log 2 ((1000 - 920) / 5)\<rceil> = 4"
    using log2_16 by simp
  have "bisection demo_config (always_penetrated (2, 2, 2, 2)) 0
      \<lparr>v_low = 920, v_high = 1000, penetration_points = [], run_count = 0,
        current_v = 1000, expansion_iter = 0\<rparr>
     = Inr (5, \<lparr>v_low = 920, v_high = 1845 / 2,
                 penetration_points = [(960, 50), (940, 50), (930, 50), (925, 50), (1845 / 2, 50)],
                 run_count = 5, current_v = 1000, expansion_iter = 0\<rparr>)"
    by (simp add: demo_config_def always_penetrated_def bisection_body_def vr_in_range_def Let_def)
  with l show ?thesis by simp
qed

text \<open>
  Claim C5, amended: for a bracket \<open>v_low < v_high\<close>, a tolerance \<open>t > 0\<close> and a
  configuration that defines the names the loop reads, the bisection loop returns for
  every sequence of outcomes, failed experiments included, after a number of trials that
  is at most \<open>floor(log2((v_high - v_low) / t)) + 1\<close> (and \<open>0\<close> when that is negative) and
  at most \<open>MAX_BISECTION_ITERATIONS\<close>; each trial is one run. With the bracket
  \<open>[900, 1000]\<close>, tolerance \<open>5\<close> and a budget of at least five iterations and five runs it
  performs exactly \<open>5\<close> trials and ends with a width below the tolerance.
\<close>

theorem C5_bisection_bound:
  assumes "experiment_names_defined cfg"
    and "CONVERGENCE_TOLERANCE cfg = Some tolerance" "0 < tolerance"
    and "MAX_BISECTION_ITERATIONS cfg = Some max_iter" "MAX_TOTAL_RUNS cfg = Some max_runs"
    and "v_low st < v_high st"
  shows "\<exists>trials st'.
           bisection cfg obs 0 st = Inr (trials, st')
         \<and> 0 \<le> trials
         \<and> run_count st' = run_count st + trials
         \<and> trials \<le> max 0 (\<lfloor>log 2 ((v_high st - v_low st) / tolerance)\<rfloor> + 1)
         \<and> trials \<le> max 0 max_iter
         \<and> (v_low st = 900 \<and> v_high st = 1000 \<and> tolerance = 5 \<and> 5 \<le> max_iter
              \<and> run_count st + 5 \<le> max_runs
              \<longrightarrow> trials = 5 \<and> v_high st' - v_low st' < tolerance)"
proof -
  obtain trials st' where r: "bisection cfg obs 0 st = Inr (trials, st')"
    using bisection_returns [OF assms(1,2,4,5)] by blast
  let ?n = "nat (\<lfloor>log 2 ((v_high st - v_low st) / tolerance)\<rfloor> + 1)"
  have "v_high st - v_low st < tolerance * 2 ^ ?n"
    using below_power_of_floor_log [of "v_high st - v_low st" tolerance] assms(3,6) by simp
  from bisection_trials_le [OF assms(2) r this]
  have b: "0 \<le> trials" "trials \<le> int ?n" "run_count st' = run_count st + trials"
    by auto
  have m: "trials \<le> max 0 max_iter"
    using bisection_iter_le [OF assms(4) r] .
  have c: "v_low st = 900 \<and> v_high st = 1000 \<and> tolerance = 5 \<and> 5 \<le> max_iter
              \<and> run_count st + 5 \<le> max_runs
              \<longrightarrow> trials = 5 \<and> v_high st' - v_low st' < tolerance"
  proof
    assume h: "v_low st = 900 \<and> v_high st = 1000 \<and> tolerance = 5 \<and> 5 \<le> max_iter
              \<and> run_count st + 5 \<le> max_runs"
    have "\<exists>s. bisection cfg obs 0 st = Inr (0 + int 5, s) \<and> v_high s - v_low s < tolerance"
      using h by (intro bisection_exact [OF assms(1,2,3,4,5)]) auto
    with r show "trials = 5 \<and> v_high st' - v_low st' < tolerance" by auto
  qed
  have b2: "trials \<le> max 0 (\<lfloor>log 2 ((v_high st - v_low st) / tolerance)\<rfloor> + 1)"
    using b(2) by (simp add: max_def)
  from r b(1,3) b2 m c show ?thesis by blast
qed

theorem C5_bisection_bound_witness:
  "\<exists>trials st'.
     bisection demo_config (always_penetrated (2, 2, 2, 2)) 0
        \<lparr>v_low = 900, v_high = 1000, penetration_points = [], run_count = 4,
          current_v = 1000, expansion_iter = 4\<rparr> = Inr (trials, st')
     \<and> trials = 5 \<and> run_count st' = 9 \<and> v_high st' - v_low st' < 5"
proof -
  let ?st = "\<lparr>v_low = 900, v_high = 1000 :: real, penetration_points = [], run_count = 4,
          current_v = 1000, expansion_iter = 4\<rparr>"
  have h1: "experiment_names_defined demo_config"
    by (simp add: experiment_names_defined_def demo_config_def)
  have h2: "CONVERGENCE_TOLERANCE demo_config = Some 5" "(0::real) < 5"
    by (simp_all add: demo_config_def)
  have h3: "MAX_BISECTION_ITERATIONS demo_config = Some 20" "MAX_TOTAL_RUNS demo_config = Some 20"
    by (simp_all add: demo_config_def)
  have h4: "v_low ?st < v_high ?st" by simp
  from C5_bisection_bound [OF h1 h2 h3 h4, of "always_penetrated (2, 2, 2, 2)"]
  show ?thesis by auto
qed

subsection \<open>The loops follow the transition system\<close>

text \<open>
  Every result of the sampling, expansion and bisection loops is reached by transitions
  from the loop's start: the control points of the transition system are the states the
  loops pass through.
\<close>

lemma sampling_steps:
  assumes "sampling cfg obs target_samples sample_step s = Some y"
  shows "\<forall>st'. y = Inr st' \<longrightarrow>
           (step cfg obs)\<^sup>*\<^sup>* (Sampling target_samples sample_step s) (after_expansion st')"
proof (rule sampling.raw_induct [where P = "\<lambda>cfg obs target_samples sample_step s y.
         \<forall>st'. y = Inr st' \<longrightarrow>
           (step cfg obs)\<^sup>*\<^sup>* (Sampling target_samples sample_step s) (after_expansion st')",
       OF _ assms])
  fix sampling' cfg obs target_samples sample_step s y
  assume ih: "\<And>cfg obs target_samples sample_step s y.
            sampling' cfg obs target_samples sample_step s = Some y \<Longrightarrow>
            \<forall>st'. y = Inr st' \<longrightarrow>
              (step cfg obs)\<^sup>*\<^sup>* (Sampling target_samples sample_step s) (after_expansion st')"
    and body: "(case sampling_cond cfg target_samples s of
        Inl e \<Rightarrow> Some (Inl e)
      | Inr go \<Rightarrow>
          if go
          then (case sampling_body cfg obs sample_step s of
                  Inl e \<Rightarrow> Some (Inl e)
                | Inr s' \<Rightarrow> sampling' cfg obs target_samples sample_step s')
          else Some (Inr (fst s))) = Some y"
  show "\<forall>st'. y = Inr st' \<longrightarrow>
          (step cfg obs)\<^sup>*\<^sup>* (Sampling target_samples sample_step s) (after_expansion st')"
  proof (intro allI impI)
    fix st' assume y: "y = Inr st'"
    from body y obtain go where c: "sampling_cond cfg target_samples s = Inr go"
      by (auto split: sum.splits)
    show "(step cfg obs)\<^sup>*\<^sup>* (Sampling target_samples sample_step s) (after_expansion st')"
    proof (cases go)
      case False
      with body c y have "st' = fst s" by simp
      with c False show ?thesis
        by (auto intro: step.sample_done)
    next
      case True
      with body c y obtain s' where b: "sampling_body cfg obs sample_step s = Inr s'"
        and r: "sampling' cfg obs target_samples sample_step s' = Some (Inr st')"
        by (auto split: sum.splits)
      from c True b have "step cfg obs (Sampling target_samples sample_step s)
                            (Sampling target_samples sample_step s')"
        by (auto intro: step.sample_again)
      with ih [OF r] show ?thesis
        by (auto intro: converse_rtranclp_into_rtranclp)
    qed
  qed
qed

lemma expansion_steps:
  assumes "expansion cfg obs multiplier st = Some (Inr st')" "multiplier = growth_multiplier cfg"
  shows "(step cfg obs)\<^sup>*\<^sup>* (Expanding st) (after_expansion st')"
  using assms
proof (induction cfg obs multiplier st rule: expansion.induct)
  case (1 cfg obs multiplier st)
  from "1.prems"(1) obtain max_runs where m: "MAX_TOTAL_RUNS cfg = Some max_runs"
    by (subst (asm) expansion.simps) (auto split: option.splits)
  show ?case
  proof (cases "run_count st < max_runs")
    case False
    with "1.prems"(1) m have "st' = st"
      by (subst (asm) expansion.simps) auto
    with m False show ?thesis by (auto intro: step.expand_exhausted)
  next
    case True
    with "1.prems"(1) m obtain c where c: "expansion_body cfg obs multiplier st = Inr c"
      by (subst (asm) expansion.simps) (auto split: sum.splits)
    show ?thesis
    proof (cases c)
      case (Again s)
      with "1.prems"(1) m True c have r: "expansion cfg obs multiplier s = Some (Inr st')"
        by (subst (asm) expansion.simps) auto
      from "1.IH" [OF m True c Again r "1.prems"(2)]
      have "(step cfg obs)\<^sup>*\<^sup>* (Expanding s) (after_expansion st')" .
      moreover have "step cfg obs (Expanding st) (Expanding s)"
        using m True c Again "1.prems"(2) by (auto intro: step.expand_again)
      ultimately show ?thesis by (auto intro: converse_rtranclp_into_rtranclp)
    next
      case (Leave s)
      with "1.prems"(1) m True c have "st' = s"
        by (subst (asm) expansion.simps) auto
      with m True c Leave "1.prems"(2) show ?thesis
        by (auto intro: step.expand_leave)
    next
      case (Sample target_samples sample_step s)
      with "1.prems"(1) m True c
      have r: "sampling cfg obs target_samples sample_step s = Some (Inr st')"
        by (subst (asm) expansion.simps) auto
      have "step cfg obs (Expanding st) (Sampling target_samples sample_step s)"
        using m True c Sample "1.prems"(2) by (auto intro: step.expand_sample)
      with sampling_steps [OF r] show ?thesis
        by (auto intro: converse_rtranclp_into_rtranclp)
    qed
  qed
qed

lemma bisection_steps:
  assumes "bisection cfg obs i st = Inr (k, st')"
  shows "(step cfg obs)\<^sup>*\<^sup>* (Bisecting i st) (Fitting st')"
  using assms
proof (induction cfg obs i st rule: bisection.induct)
  case (1 cfg obs i st)
  from "1.prems" obtain max_iter where mi: "MAX_BISECTION_ITERATIONS cfg = Some max_iter"
    by (subst (asm) bisection.simps) (auto split: option.splits)
  show ?case
  proof (cases "i < max_iter")
    case False
    with "1.prems" mi have "st' = st" by (subst (asm) bisection.simps) auto
    with mi False show ?thesis by (auto intro: step.bisect_max_iter)
  next
    case True
    with "1.prems" mi obtain max_runs where mr: "MAX_TOTAL_RUNS cfg = Some max_runs"
      by (subst (asm) bisection.simps) (auto split: option.splits)
    show ?thesis
    proof (cases "run_count st < max_runs")
      case False
      with "1.prems" mi mr True have "st' = st" by (subst (asm) bisection.simps) auto
      with mi mr True False show ?thesis by (auto intro: step.bisect_exhausted)
    next
      case rt: True
      with "1.prems" mi mr True obtain c where c: "bisection_body cfg obs st = Inr c"
        by (subst (asm) bisection.simps) (auto split: sum.splits)
      show ?thesis
      proof (cases c)
        case (Continue s)
        with "1.prems" mi mr True rt c have r: "bisection cfg obs (i + 1) s = Inr (k, st')"
          by (subst (asm) bisection.simps) auto
        from "1.IH" [OF mi True mr rt c Continue r]
        have "(step cfg obs)\<^sup>*\<^sup>* (Bisecting (i + 1) s) (Fitting st')" .
        moreover have "step cfg obs (Bisecting i st) (Bisecting (i + 1) s)"
          using mi mr True rt c Continue by (auto intro: step.bisect_again)
        ultimately show ?thesis by (auto intro: converse_rtranclp_into_rtranclp)
      next
        case (Break s)
        with "1.prems" mi mr True rt c have "st' = s" by (subst (asm) bisection.simps) auto
        with mi mr True rt c Break show ?thesis by (auto intro: step.bisect_converged)
      qed
    qed
  qed
qed

lemma search_reaches_fitting:
  assumes "INITIAL_VELOCITY cfg = Some initial_velocity"
    and "expansion cfg obs (growth_multiplier cfg) (initial_locals initial_velocity) = Some (Inr st)"
    and "v_high st = Finite vh"
    and "bisection cfg obs 0 (with_v_high st vh) = Inr (k, st')"
  shows "reachable cfg obs (Fitting st')"
proof -
  have "(step cfg obs)\<^sup>*\<^sup>* (Expanding (initial_locals initial_velocity)) (after_expansion st)"
    using expansion_steps [OF assms(2)] by simp
  moreover have "after_expansion st = Bisecting 0 (with_v_high st vh)"
    using assms(3) by (simp add: after_expansion_def)
  ultimately show ?thesis
    using bisection_steps [OF assms(4)] assms(1)
    by (auto simp: reachable_def)
qed

subsection \<open>The bracket invariant\<close>

lemma growth_multiplier_gt1: "growth_multiplier cfg = Some m \<Longrightarrow> 1 < m"
  by (auto simp: growth_multiplier_def split: if_splits option.splits)

lemma expansion_body_Again_inv:
  assumes "expansion_body cfg obs (growth_multiplier cfg) st = Inr (Again st')"
    and "sane_config cfg" "search_inv (Expanding st)"
  shows "search_inv (Expanding st') \<and> v_low st \<le> v_low st' \<and> v_high st' = v_high st
       \<and> (\<forall>vr. obs (run_count st + 1) (current_v st) = Observed True vr \<longrightarrow> v_low st' = v_low st)"
proof -
  have m: "\<And>m. growth_multiplier cfg = Some m \<Longrightarrow> current_v st < current_v st * m"
    using growth_multiplier_gt1 assms(3) by simp
  show ?thesis
    using assms m
    by (auto simp: expansion_body_def sane_config_def Let_def
             split: option.splits outcome.splits if_splits sum.splits)
qed

lemma expansion_body_Leave_inv:
  assumes "expansion_body cfg obs (growth_multiplier cfg) st = Inr (Leave st')"
  shows "v_low st' = v_low st \<and> v_high st' = v_high st"
  using assms
  by (auto simp: expansion_body_def Let_def
           split: option.splits outcome.splits if_splits sum.splits)

lemma expansion_body_Sample_inv:
  assumes "expansion_body cfg obs (growth_multiplier cfg) st = Inr (Sample target_samples sample_step s)"
  shows "v_low (fst s) = v_low st \<and> v_high (fst s) = Finite (current_v st)
       \<and> (\<exists>vr. obs (run_count st + 1) (current_v st) = Observed True vr)"
  using assms
  by (auto simp: expansion_body_def Let_def
           split: option.splits outcome.splits if_splits sum.splits)

lemma sampling_body_bracket:
  assumes "sampling_body cfg obs sample_step s = Inr s'"
  shows "v_low (fst s') = v_low (fst s) \<and> v_high (fst s') = v_high (fst s)"
  using assms
  by (auto simp: sampling_body_def advance_def Let_def
           split: option.splits outcome.splits if_splits sum.splits)

lemma bisection_body_bracket:
  assumes "bisection_body cfg obs st = Inr (Continue st')" "v_low st < v_high st"
  shows "v_low st' < v_high st' \<and> v_low st \<le> v_low st' \<and> v_high st' \<le> v_high st
       \<and> (\<forall>vr. obs (run_count st + 1) ((v_low st + v_high st) / 2) = Observed False vr
             \<longrightarrow> v_high st' = v_high st)
       \<and> (\<forall>vr. obs (run_count st + 1) ((v_low st + v_high st) / 2) = Observed True vr
             \<longrightarrow> v_low st' = v_low st)"
  using assms
  by (auto simp: bisection_body_def Let_def
           split: option.splits outcome.splits if_splits sum.splits)

lemma bisection_body_Break_same:
  assumes "bisection_body cfg obs st = Inr (Break st')"
  shows "st' = st"
  using assms
  by (auto simp: bisection_body_def Let_def
           split: option.splits outcome.splits if_splits sum.splits)

lemma after_expansion_inv:
  assumes "case v_high st of Infinity \<Rightarrow> True | Finite vh \<Rightarrow> v_low st < vh"
  shows "search_inv (after_expansion st) \<and> bracket (after_expansion st) = (v_low st, v_high st)"
  using assms by (auto simp: after_expansion_def with_v_high_def split: xfloat.splits)

lemma step_inv:
  assumes "step cfg obs pt pt'" "sane_config cfg" "search_inv pt"
  shows "search_inv pt'
       \<and> fst (bracket pt) \<le> fst (bracket pt')
       \<and> xfloat_le (snd (bracket pt')) (snd (bracket pt))"
  using assms
proof (cases rule: step.cases)
  case (expand_again max_runs st st')
  with assms expansion_body_Again_inv [OF expand_again(5) assms(2)] show ?thesis by auto
next
  case (expand_leave max_runs st st')
  with assms expansion_body_Leave_inv [OF expand_leave(5)]
    after_expansion_inv [of st'] show ?thesis by auto
next
  case (expand_sample max_runs st target_samples sample_step s)
  with assms expansion_body_Sample_inv [OF expand_sample(5)] show ?thesis by auto
next
  case (expand_exhausted max_runs st)
  with assms after_expansion_inv [of st] show ?thesis by auto
next
  case (sample_again target_samples s sample_step s')
  with assms sampling_body_bracket [OF sample_again(4)] show ?thesis by auto
next
  case (sample_done target_samples s sample_step)
  with assms after_expansion_inv [of "fst s"] show ?thesis by auto
next
  case (bisect_again max_iter bisection_iter max_runs st st')
  with assms bisection_body_bracket [OF bisect_again(7)] show ?thesis by auto
next
  case (bisect_converged max_iter bisection_iter max_runs st st')
  with assms bisection_body_Break_same [OF bisect_converged(7)] show ?thesis by auto
next
  case (bisect_max_iter max_iter bisection_iter st)
  with assms show ?thesis by auto
next
  case (bisect_exhausted max_iter bisection_iter max_runs st)
  with assms show ?thesis by auto
qed

lemma reachable_inv:
  assumes "reachable cfg obs pt" "sane_config cfg"
  shows "search_inv pt"
proof -
  from assms(1) obtain iv where iv: "INITIAL_VELOCITY cfg = Some iv"
    and r: "(step cfg obs)\<^sup>*\<^sup>* (Expanding (initial_locals iv)) pt"
    by (auto simp: reachable_def)
  from r show ?thesis
  proof (induction rule: rtranclp_induct)
    case base
    from iv assms(2) show ?case by (simp add: sane_config_def initial_locals_def)
  next
    case (step y z)
    with step_inv [OF step(2) assms(2)] show ?case by blast
  qed
qed

lemma search_inv_below: "search_inv pt \<Longrightarrow> below (fst (bracket pt)) (snd (bracket pt))"
  by (cases pt) auto

lemma after_expansion_bracket: "bracket (after_expansion st) = (v_low st, v_high st)"
  by (auto simp: after_expansion_def with_v_high_def split: xfloat.splits)

lemma reachable_step:
  assumes "reachable cfg obs pt" "step cfg obs pt pt'"
  shows "reachable cfg obs pt'"
  using assms by (auto simp: reachable_def intro: rtranclp.rtrancl_into_rtrancl)

lemma step_sampling_bracket:
  assumes "step cfg obs (Sampling target_samples sample_step s) pt'"
  shows "bracket pt' = bracket (Sampling target_samples sample_step s)"
  using assms
proof (cases rule: step.cases)
  case (sample_again s')
  with sampling_body_bracket [OF sample_again(3)] show ?thesis by simp
next
  case sample_done
  then show ?thesis by (simp add: after_expansion_bracket)
qed

lemma step_expanding_outcome:
  assumes "step cfg obs (Expanding st) pt'" "sane_config cfg" "search_inv (Expanding st)"
  shows "(\<forall>vr. obs (run_count st + 1) (current_v st) = Observed False vr
            \<longrightarrow> snd (bracket pt') = v_high st)
       \<and> (\<forall>vr. obs (run_count st + 1) (current_v st) = Observed True vr
            \<longrightarrow> fst (bracket pt') = v_low st)"
  using assms(1)
proof (cases rule: step.cases)
  case (expand_again max_runs st')
  with expansion_body_Again_inv [OF expand_again(4) assms(2,3)] show ?thesis by auto
next
  case (expand_leave max_runs st')
  with expansion_body_Leave_inv [OF expand_leave(4)] show ?thesis
    by (simp add: after_expansion_bracket)
next
  case (expand_sample max_runs target_samples sample_step s)
  with expansion_body_Sample_inv [OF expand_sample(4)] show ?thesis by auto
next
  case (expand_exhausted max_runs)
  then show ?thesis by (simp add: after_expansion_bracket)
qed

lemma step_bisecting_outcome:
  assumes "step cfg obs (Bisecting bisection_iter st) pt'" "v_low st < v_high st"
  shows "(\<forall>vr. obs (run_count st + 1) ((v_low st + v_high st) / 2) = Observed False vr
            \<longrightarrow> snd (bracket pt') = Finite (v_high st))
       \<and> (\<forall>vr. obs (run_count st + 1) ((v_low st + v_high st) / 2) = Observed True vr
            \<longrightarrow> fst (bracket pt') = v_low st)"
  using assms(1)
proof (cases rule: step.cases)
  case (bisect_again max_iter max_runs st')
  with bisection_body_bracket [OF bisect_again(6) assms(2)] show ?thesis by auto
next
  case (bisect_converged max_iter max_runs st')
  with bisection_body_Break_same [OF bisect_converged(6)] show ?thesis by auto
next
  case (bisect_max_iter max_iter)
  then show ?thesis by auto
next
  case (bisect_exhausted max_iter max_runs)
  then show ?thesis by auto
qed

text \<open>
  Claim C2: for a sane configuration and every world (every assignment of outcomes to
  experiments), at every control point the search reaches, \<open>v_low < v_high\<close> holds, with
  \<open>float('inf')\<close> above every velocity, so it holds strictly from the first penetration
  on. No transition widens the bracket: \<open>v_low\<close> never decreases and \<open>v_high\<close> never
  increases, in the expansion, sampling and bisection loops, also when the bisection
  takes the branch of a failed simulation. In the expansion and bisection loops an
  unpenetrated outcome leaves \<open>v_high\<close> as it is and a penetrated outcome leaves \<open>v_low\<close>
  as it is; the sampling loop does not change the bracket.
\<close>

theorem C2_bracket_invariant:
  assumes "sane_config cfg" "reachable cfg obs pt"
  shows "below (fst (bracket pt)) (snd (bracket pt))
       \<and> (\<forall>pt'. step cfg obs pt pt' \<longrightarrow>
             reachable cfg obs pt'
             \<and> fst (bracket pt) \<le> fst (bracket pt')
             \<and> xfloat_le (snd (bracket pt')) (snd (bracket pt)))
       \<and> (\<forall>st pt' vr. pt = Expanding st \<and> step cfg obs pt pt'
             \<and> obs (run_count st + 1) (current_v st) = Observed False vr
             \<longrightarrow> snd (bracket pt') = snd (bracket pt))
       \<and> (\<forall>st pt' vr. pt = Expanding st \<and> step cfg obs pt pt'
             \<and> obs (run_count st + 1) (current_v st) = Observed True vr
             \<longrightarrow> fst (bracket pt') = fst (bracket pt))
       \<and> (\<forall>bisection_iter st pt' vr. pt = Bisecting bisection_iter st \<and> step cfg obs pt pt'
             \<and> obs (run_count st + 1) ((v_low st + v_high st) / 2) = Observed False vr
             \<longrightarrow> snd (bracket pt') = snd (bracket pt))
       \<and> (\<forall>bisection_iter st pt' vr. pt = Bisecting bisection_iter st \<and> step cfg obs pt pt'
             \<and> obs (run_count st + 1) ((v_low st + v_high st) / 2) = Observed True vr
             \<longrightarrow> fst (bracket pt') = fst (bracket pt))
       \<and> (\<forall>target_samples sample_step s pt'.
             pt = Sampling target_samples sample_step s \<and> step cfg obs pt pt'
             \<longrightarrow> bracket pt' = bracket pt)"
proof -
  have inv: "search_inv pt" using reachable_inv [OF assms(2,1)] .
  have 1: "below (fst (bracket pt)) (snd (bracket pt))"
    using inv by (rule search_inv_below)
  have 2: "\<forall>pt'. step cfg obs pt pt' \<longrightarrow>
             reachable cfg obs pt'
             \<and> fst (bracket pt) \<le> fst (bracket pt')
             \<and> xfloat_le (snd (bracket pt')) (snd (bracket pt))"
    using step_inv [OF _ assms(1) inv] reachable_step [OF assms(2)] by blast
  have 3: "\<forall>st pt' vr. pt = Expanding st \<and> step cfg obs pt pt'
             \<and> obs (run_count st + 1) (current_v st) = Observed False vr
             \<longrightarrow> snd (bracket pt') = snd (bracket pt)"
    using step_expanding_outcome [OF _ assms(1)] inv by fastforce
  have 4: "\<forall>st pt' vr. pt = Expanding st \<and> step cfg obs pt pt'
             \<and> obs (run_count st + 1) (current_v st) = Observed True vr
             \<longrightarrow> fst (bracket pt') = fst (bracket pt)"
    using step_expanding_outcome [OF _ assms(1)] inv by fastforce
  have 5: "\<forall>bisection_iter st pt' vr. pt = Bisecting bisection_iter st \<and> step cfg obs pt pt'
             \<and> obs (run_count st + 1) ((v_low st + v_high st) / 2) = Observed False vr
             \<longrightarrow> snd (bracket pt') = snd (bracket pt)"
    using step_bisecting_outcome inv by fastforce
  have 6: "\<forall>bisection_iter st pt' vr. pt = Bisecting bisection_iter st \<and> step cfg obs pt pt'
             \<and> obs (run_count st + 1) ((v_low st + v_high st) / 2) = Observed True vr
             \<longrightarrow> fst (bracket pt') = fst (bracket pt)"
    using step_bisecting_outcome inv by fastforce
  have 7: "\<forall>target_samples sample_step s pt'.
             pt = Sampling target_samples sample_step s \<and> step cfg obs pt pt'
             \<longrightarrow> bracket pt' = bracket pt"
    using step_sampling_bracket by blast
  from 1 2 3 4 5 6 7 show ?thesis by blast
qed

theorem C2_bracket_invariant_witness:
  "reachable demo_config (always_penetrated (2, 2, 2, 2))
       (Sampling 3 10
          (\<lparr>v_low = 0, v_high = Finite 300, penetration_points = [(300, 50)], run_count = 1,
             current_v = 300, expansion_iter = 1\<rparr>,
           \<lparr>samples_collected = 1, up_v = 310, down_v = 290, tried = {300},
             direction_toggle = 0\<rparr>))
   \<and> below (fst (bracket (Sampling 3 10
          (\<lparr>v_low = 0, v_high = Finite 300, penetration_points = [(300, 50)], run_count = 1,
             current_v = 300, expansion_iter = 1\<rparr>,
           \<lparr>samples_collected = 1, up_v = 310, down_v = 290, tried = {300},
             direction_toggle = 0\<rparr>))))
            (snd (bracket (Sampling 3 10
          (\<lparr>v_low = 0, v_high = Finite 300, penetration_points = [(300, 50)], run_count = 1,
             current_v = 300, expansion_iter = 1\<rparr>,
           \<lparr>samples_collected = 1, up_v = 310, down_v = 290, tried = {300},
             direction_toggle = 0\<rparr>))))
   \<and> fst (bracket (Expanding (initial_locals 300))) \<le> fst (bracket (Sampling 3 10
          (\<lparr>v_low = 0, v_high = Finite 300, penetration_points = [(300, 50)], run_count = 1,
             current_v = 300, expansion_iter = 1\<rparr>,
           \<lparr>samples_collected = 1, up_v = 310, down_v = 290, tried = {300},
             direction_toggle = 0\<rparr>)))
   \<and> xfloat_le (snd (bracket (Sampling 3 10
          (\<lparr>v_low = 0, v_high = Finite 300, penetration_points = [(300, 50)], run_count = 1,
             current_v = 300, expansion_iter = 1\<rparr>,
           \<lparr>samples_collected = 1, up_v = 310, down_v = 290, tried = {300},
             direction_toggle = 0\<rparr>))))
        (snd (bracket (Expanding (initial_locals 300))))
   \<and> fst (bracket (Sampling 3 10
          (\<lparr>v_low = 0, v_high = Finite 300, penetration_points = [(300, 50)], run_count = 1,
             current_v = 300, expansion_iter = 1\<rparr>,
           \<lparr>samples_collected = 1, up_v = 310, down_v = 290, tried = {300},
             direction_toggle = 0\<rparr>))) = fst (bracket (Expanding (initial_locals 300)))"
proof -
  let ?w = "always_penetrated (2, 2, 2, 2)"
  let ?pt0 = "Expanding (initial_locals 300)"
  let ?pt1 = "Sampling 3 10
          (\<lparr>v_low = 0, v_high = Finite 300, penetration_points = [(300, 50)], run_count = 1,
             current_v = 300, expansion_iter = 1\<rparr>,
           \<lparr>samples_collected = 1, up_v = 310, down_v = 290, tried = {300},
             direction_toggle = 0\<rparr>)"
  have sane: "sane_config demo_config"
    by (simp add: sane_config_def demo_config_def)
  have r0: "reachable demo_config ?w ?pt0"
    by (simp add: reachable_def demo_config_def)
  have body: "expansion_body demo_config ?w (growth_multiplier demo_config) (initial_locals 300)
                = Inr (Sample 3 10
          (\<lparr>v_low = 0, v_high = Finite 300, penetration_points = [(300, 50)], run_count = 1,
             current_v = 300, expansion_iter = 1\<rparr>,
           \<lparr>samples_collected = 1, up_v = 310, down_v = 290, tried = {300},
             direction_toggle = 0\<rparr>))"
    by (simp add: expansion_body_def demo_config_def growth_multiplier_def initial_locals_def
          always_penetrated_def vr_in_range_def filter_points_def Let_def r6)
  have s01: "step demo_config ?w ?pt0 ?pt1"
    by (rule step.expand_sample [where max_runs = 20, OF _ _ body])
       (simp_all add: demo_config_def initial_locals_def)
  have o: "?w (run_count (initial_locals 300) + 1) (current_v (initial_locals 300)) = Observed True 50"
    by (simp add: always_penetrated_def)
  note c0 = C2_bracket_invariant [OF sane r0]
  from c0 s01 have r1: "reachable demo_config ?w ?pt1"
    and n1: "fst (bracket ?pt0) \<le> fst (bracket ?pt1)"
    and n2: "xfloat_le (snd (bracket ?pt1)) (snd (bracket ?pt0))"
    by blast+
  from c0 s01 o have e: "fst (bracket ?pt1) = fst (bracket ?pt0)"
    by blast
  from C2_bracket_invariant [OF sane r1]
  have b: "below (fst (bracket ?pt1)) (snd (bracket ?pt1))" by blast
  from r1 b n1 n2 e show ?thesis by blast
qed

end
